theory Spec2Isabelle
  imports Complex_Main "HOL-Library.AList"
begin

section \<open>httpcheck.js: data model\<close>

text \<open>
  The embedding follows \<^verbatim>\<open>src/httpcheck.js\<close>. JavaScript strings are \<^typ>\<open>string\<close>,
  numbers that the program only ever uses as integers are \<^typ>\<open>int\<close> (exact, so values beyond
  2^53 are outside the model), \<^verbatim>\<open>undefined\<close>/\<^verbatim>\<open>null\<close> is \<open>None\<close>, \<^verbatim>\<open>NaN\<close> is \<open>None\<close> of an
  \<^typ>\<open>int option\<close>, and a plain object used as a dictionary is an association list.
  Two records cannot share a field name, so the fields of the result object that clash with
  a field of the options object or with a HOL constant are renamed: \<^verbatim>\<open>result.headers\<close> is
  \<open>resHeaders\<close> and \<^verbatim>\<open>result.size\<close> is \<open>bodySize\<close>. The names \<open>file\<close>, \<open>output\<close> and \<open>method\<close>
  are keywords, so \<^verbatim>\<open>options.file\<close>, \<^verbatim>\<open>options.output\<close> and \<^verbatim>\<open>options.method\<close> are \<open>opt_file\<close>,
  \<open>opt_output\<close> and \<open>opt_method\<close>. A redirect entry \<^verbatim>\<open>{from, to, status}\<close> has the fields
  \<open>r_from\<close>, \<open>r_to\<close>, \<open>r_status\<close>.
\<close>

record options =
  urls :: "string list"
  opt_file :: "string option"
  timeout :: int
  retries :: int
  followRedirects :: bool
  maxRedirects :: int
  opt_method :: string
  headers :: "(string \<times> string) list"
  opt_output :: "string option"
  format :: string
  concurrent :: int
  verbose :: bool
  quiet :: bool

record redirect_entry =
  r_from :: string
  r_to :: string
  r_status :: int

record check_result =
  url :: string
  status :: int
  statusText :: string
  responseTime :: int
  bodySize :: int
  resHeaders :: "(string \<times> string) list"
  redirects :: "redirect_entry list"
  error :: "string option"

text \<open>The object literal at the top of \<^verbatim>\<open>parseArgs\<close>.\<close>

definition default_options :: options where
  "default_options =
     \<lparr> urls = [], opt_file = None, timeout = 10000, retries = 1, followRedirects = True,
       maxRedirects = 10, opt_method = ''GET'', headers = [], opt_output = None, format = ''table'',
       concurrent = 5, verbose = False, quiet = False \<rparr>"

definition COLORS_reset :: string where "COLORS_reset = CHR 0x1B # ''[0m''"
definition COLORS_red :: string where "COLORS_red = CHR 0x1B # ''[31m''"
definition COLORS_green :: string where "COLORS_green = CHR 0x1B # ''[32m''"
definition COLORS_yellow :: string where "COLORS_yellow = CHR 0x1B # ''[33m''"
definition COLORS_magenta :: string where "COLORS_magenta = CHR 0x1B # ''[35m''"
definition COLORS_cyan :: string where "COLORS_cyan = CHR 0x1B # ''[36m''"
definition COLORS_gray :: string where "COLORS_gray = CHR 0x1B # ''[90m''"

definition STATUS_CODES :: "(int \<times> string) list" where
  "STATUS_CODES =
     [(200, ''OK''), (201, ''Created''), (204, ''No Content''),
      (301, ''Moved Permanently''), (302, ''Found''), (304, ''Not Modified''),
      (400, ''Bad Request''), (401, ''Unauthorized''), (403, ''Forbidden''),
      (404, ''Not Found''), (405, ''Method Not Allowed''),
      (500, ''Internal Server Error''), (502, ''Bad Gateway''),
      (503, ''Service Unavailable''), (504, ''Gateway Timeout'')]"

section \<open>JavaScript library functions used by the program\<close>

text \<open>Truthiness of a string-or-undefined value: \<^verbatim>\<open>undefined\<close>, \<^verbatim>\<open>null\<close> and \<^verbatim>\<open>''\<close> are falsy.\<close>

definition truthy_str :: "string option \<Rightarrow> bool" where
  "truthy_str v = (case v of None \<Rightarrow> False | Some s \<Rightarrow> s \<noteq> [])"

text \<open>\<^verbatim>\<open>x || d\<close> on a string-or-undefined value.\<close>

definition str_or :: "string option \<Rightarrow> string \<Rightarrow> string" where
  "str_or v d = (case v of None \<Rightarrow> d | Some s \<Rightarrow> if s = [] then d else s)"

text \<open>\<^verbatim>\<open>x || d\<close> on a number: \<^verbatim>\<open>NaN\<close> and \<^verbatim>\<open>0\<close> (also \<^verbatim>\<open>-0\<close>) are falsy.\<close>

definition num_or :: "int option \<Rightarrow> int \<Rightarrow> int" where
  "num_or v d = (case v of None \<Rightarrow> d | Some n \<Rightarrow> if n = 0 then d else n)"

text \<open>White space is the ASCII white space; the Unicode spaces of ECMA-262 are left out.\<close>

definition isWhiteSpace :: "char \<Rightarrow> bool" where
  "isWhiteSpace c = (c \<in> set [CHR '' '', CHR 0x09, CHR 0x0A, CHR 0x0B, CHR 0x0C, CHR 0x0D])"

definition trim :: "string \<Rightarrow> string" where
  "trim s = rev (dropWhile isWhiteSpace (rev (dropWhile isWhiteSpace s)))"

definition startsWith :: "string \<Rightarrow> string \<Rightarrow> bool" where
  "startsWith s p = (take (length p) s = p)"

definition toUpperChar :: "char \<Rightarrow> char" where
  "toUpperChar c =
     (if (97::nat) \<le> of_char c \<and> of_char c \<le> (122::nat) then char_of (of_char c - (32::nat)) else c)"

definition toUpperCase :: "string \<Rightarrow> string" where
  "toUpperCase s = map toUpperChar s"

text \<open>\<^verbatim>\<open>s.split(':')\<close> and \<^verbatim>\<open>parts.join(':')\<close>.\<close>

fun split_colon_acc :: "string \<Rightarrow> string \<Rightarrow> string list" where
  "split_colon_acc cur [] = [rev cur]"
| "split_colon_acc cur (c # cs) =
     (if c = CHR '':'' then rev cur # split_colon_acc [] cs else split_colon_acc (c # cur) cs)"

definition split_colon :: "string \<Rightarrow> string list" where
  "split_colon s = split_colon_acc [] s"

fun join_colon :: "string list \<Rightarrow> string" where
  "join_colon [] = []"
| "join_colon [p] = p"
| "join_colon (p # q # ps) = p @ '':'' @ join_colon (q # ps)"

text \<open>
  \<^verbatim>\<open>parseInt(x)\<close> with no radix, after ECMA-262: the argument is converted to a string
  (\<^verbatim>\<open>undefined\<close> becomes \<^verbatim>\<open>"undefined"\<close>), leading white space is skipped, a sign is read,
  a \<^verbatim>\<open>0x\<close>/\<^verbatim>\<open>0X\<close> prefix selects radix 16, and the longest prefix of digits is the value;
  no digit at all gives \<^verbatim>\<open>NaN\<close>.
\<close>

definition digit_of :: "char \<Rightarrow> nat option" where
  "digit_of c =
     (let n = (of_char c :: nat) in
      if 48 \<le> n \<and> n \<le> 57 then Some (n - 48)
      else if 97 \<le> n \<and> n \<le> 122 then Some (n - 87)
      else if 65 \<le> n \<and> n \<le> 90 then Some (n - 55)
      else None)"

definition is_digit_in :: "nat \<Rightarrow> char \<Rightarrow> bool" where
  "is_digit_in R c = (case digit_of c of None \<Rightarrow> False | Some d \<Rightarrow> d < R)"

definition digits_value :: "nat \<Rightarrow> string \<Rightarrow> nat" where
  "digits_value R Z = foldl (\<lambda>a c. a * R + (case digit_of c of None \<Rightarrow> 0 | Some d \<Rightarrow> d)) 0 Z"

definition toString_arg :: "string option \<Rightarrow> string" where
  "toString_arg v = (case v of None \<Rightarrow> ''undefined'' | Some s \<Rightarrow> s)"

definition parseInt :: "string option \<Rightarrow> int option" where
  "parseInt v =
     (let S = dropWhile isWhiteSpace (toString_arg v);
          sign = (if startsWith S ''-'' then - 1 else (1::int));
          S1 = (if startsWith S ''+'' \<or> startsWith S ''-'' then tl S else S);
          hex = (startsWith S1 ''0x'' \<or> startsWith S1 ''0X'');
          R = (if hex then 16 else 10);
          S2 = (if hex then drop 2 S1 else S1);
          Z = takeWhile (is_digit_in R) S2
      in if Z = [] then None else Some (sign * int (digits_value R Z)))"

text \<open>Number to string, as a template literal \<^verbatim>\<open>${n}\<close> renders an integer.\<close>

fun show_nat :: "nat \<Rightarrow> string" where
  "show_nat n =
     (if n < 10 then [char_of (48 + n)] else show_nat (n div 10) @ [char_of (48 + n mod 10)])"

declare show_nat.simps [simp del]

definition show_int :: "int \<Rightarrow> string" where
  "show_int i = (if i < 0 then CHR ''-'' # show_nat (nat (- i)) else show_nat (nat i))"

section \<open>The environment: URL parser, network, file system\<close>

text \<open>
  The program calls the \<^verbatim>\<open>URL\<close> class, the \<^verbatim>\<open>http\<close>/\<^verbatim>\<open>https\<close> modules, \<^verbatim>\<open>JSON.stringify\<close> and
  the \<^verbatim>\<open>fs\<close> module of the runtime. They are parameters of the model.
  \<^item> \<open>parseURL s\<close> is \<^verbatim>\<open>new URL(s)\<close>: \<open>None\<close> when the constructor throws its \<^verbatim>\<open>TypeError\<close>.
  \<^item> \<open>resolveURL loc base\<close> is \<^verbatim>\<open>new URL(loc, base).toString()\<close>, \<open>None\<close> when it throws.
  \<^item> \<open>requestError secure rq\<close> is \<open>Some msg\<close> when \<^verbatim>\<open>protocol.request(requestOptions, ...)\<close>
    throws at once, before any request is sent: the runtime does so for a method that is not
    a token, for an invalid header name or value and for a negative timeout. \<open>secure\<close> tells
    whether the \<^verbatim>\<open>https\<close> module was chosen.
  \<^item> \<open>net k secure rq\<close> is what happens to the request with the number \<open>k\<close> (the requests of
    a check are numbered from 0 in the order in which the model visits them).
  \<^item> \<open>race k\<close> tells, for the two retries that follow the timeout of the request \<open>k\<close>, whether
    the one scheduled by the \<^verbatim>\<open>'timeout'\<close> handler finishes before the one scheduled by the
    \<^verbatim>\<open>'error'\<close> handler.
  \<^item> \<open>readFileSync path\<close> is the text of the file, \<open>None\<close> when \<^verbatim>\<open>fs.existsSync\<close> is false.
\<close>

record parsed_url =
  u_protocol :: string
  u_hostname :: string
  u_port :: string
  u_pathname :: string
  u_search :: string

record request =
  rq_hostname :: string
  rq_port :: string
  rq_path :: string
  rq_method :: string
  rq_headers :: "(string \<times> string) list"
  rq_timeout :: int

datatype outcome =
    Response int "(string \<times> string) list" string int
  | NetError string int
  | Timeout

text \<open>
  \<open>Response code hdrs body ms\<close>: the response callback ran \<open>ms\<close> milliseconds after the start of
  the call and the body \<open>body\<close> was read to its end. \<open>NetError msg ms\<close>: the \<^verbatim>\<open>'error'\<close> event
  with \<^verbatim>\<open>error.message = msg\<close>, \<open>ms\<close> milliseconds after the start. \<open>Timeout\<close>: the
  \<^verbatim>\<open>'timeout'\<close> event, before any response; its handler calls \<^verbatim>\<open>req.destroy()\<close>, upon which the
  runtime emits \<^verbatim>\<open>'error'\<close> on the same request, so that the \<^verbatim>\<open>'error'\<close> handler runs as well,
  after the \<^verbatim>\<open>'timeout'\<close> handler has returned.
\<close>

record env =
  parseURL :: "string \<Rightarrow> parsed_url option"
  resolveURL :: "string \<Rightarrow> string \<Rightarrow> string option"
  requestError :: "bool \<Rightarrow> request \<Rightarrow> string option"
  net :: "nat \<Rightarrow> bool \<Rightarrow> request \<Rightarrow> outcome"
  race :: "nat \<Rightarrow> bool"
  json_stringify :: "check_result list \<Rightarrow> string"
  writeFileSync :: "string \<Rightarrow> string \<Rightarrow> string option"
  readFileSync :: "string \<Rightarrow> string option"

section \<open>parseArgs\<close>

datatype parse_outcome = Parsed options | Exit_help | Exit_version

definition isValidURL :: "env \<Rightarrow> string \<Rightarrow> bool" where
  "isValidURL E s = (parseURL E s \<noteq> None)"

text \<open>\<^verbatim>\<open>args[++i]\<close>: the next argument, \<^verbatim>\<open>undefined\<close> past the end, and the arguments after it.\<close>

definition next_arg :: "string list \<Rightarrow> string option" where
  "next_arg rest = (case rest of [] \<Rightarrow> None | v # _ \<Rightarrow> Some v)"

definition set_header :: "string option \<Rightarrow> (string \<times> string) list \<Rightarrow> (string \<times> string) list" where
  "set_header header hs =
     (case header of
        None \<Rightarrow> hs
      | Some h \<Rightarrow>
          if h \<noteq> [] \<and> CHR '':'' \<in> set h
          then (case split_colon h of
                  [] \<Rightarrow> hs
                | key # valueParts \<Rightarrow> AList.update (trim key) (trim (join_colon valueParts)) hs)
          else hs)"

function parseArgs_loop :: "env \<Rightarrow> string list \<Rightarrow> options \<Rightarrow> parse_outcome" where
  "parseArgs_loop E [] opts = Parsed opts"
| "parseArgs_loop E (arg # rest) opts =
     (if arg = ''--help'' \<or> arg = ''-h'' then Exit_help
      else if arg = ''--version'' \<or> arg = ''-v'' then Exit_version
      else if arg = ''--file'' \<or> arg = ''-f'' then
        parseArgs_loop E (tl rest) (opts\<lparr>opt_file := next_arg rest\<rparr>)
      else if arg = ''--timeout'' \<or> arg = ''-t'' then
        parseArgs_loop E (tl rest) (opts\<lparr>timeout := num_or (parseInt (next_arg rest)) 10000\<rparr>)
      else if arg = ''--retries'' \<or> arg = ''-r'' then
        parseArgs_loop E (tl rest) (opts\<lparr>retries := num_or (parseInt (next_arg rest)) 1\<rparr>)
      else if arg = ''--no-redirect'' then
        parseArgs_loop E rest (opts\<lparr>followRedirects := False\<rparr>)
      else if arg = ''--max-redirects'' then
        parseArgs_loop E (tl rest) (opts\<lparr>maxRedirects := num_or (parseInt (next_arg rest)) 10\<rparr>)
      else if arg = ''--method'' \<or> arg = ''-m'' then
        parseArgs_loop E (tl rest) (opts\<lparr>opt_method := toUpperCase (str_or (next_arg rest) ''GET'')\<rparr>)
      else if arg = ''--header'' \<or> arg = ''-H'' then
        parseArgs_loop E (tl rest) (opts\<lparr>headers := set_header (next_arg rest) (headers opts)\<rparr>)
      else if arg = ''--output'' \<or> arg = ''-o'' then
        parseArgs_loop E (tl rest) (opts\<lparr>opt_output := next_arg rest\<rparr>)
      else if arg = ''--format'' then
        parseArgs_loop E (tl rest) (opts\<lparr>format := str_or (next_arg rest) ''table''\<rparr>)
      else if arg = ''--concurrent'' \<or> arg = ''-c'' then
        parseArgs_loop E (tl rest) (opts\<lparr>concurrent := num_or (parseInt (next_arg rest)) 5\<rparr>)
      else if arg = ''--verbose'' \<or> arg = ''-V'' then
        parseArgs_loop E rest (opts\<lparr>verbose := True\<rparr>)
      else if arg = ''--quiet'' \<or> arg = ''-q'' then
        parseArgs_loop E rest (opts\<lparr>quiet := True\<rparr>)
      else if \<not> startsWith arg ''-'' \<and> isValidURL E arg then
        parseArgs_loop E rest (opts\<lparr>urls := urls opts @ [arg]\<rparr>)
      else parseArgs_loop E rest opts)"
  by pat_completeness auto
termination
  by (relation "measure (\<lambda>(E, args, opts). length args)") auto

declare parseArgs_loop.simps(2) [simp del]

text \<open>The four numeric settings are all different from zero.\<close>

definition numeric_nonzero :: "options \<Rightarrow> bool" where
  "numeric_nonzero opts =
     (timeout opts \<noteq> 0 \<and> retries opts \<noteq> 0 \<and> maxRedirects opts \<noteq> 0 \<and> concurrent opts \<noteq> 0)"

definition parseArgs :: "env \<Rightarrow> string list \<Rightarrow> parse_outcome" where
  "parseArgs E args = parseArgs_loop E args default_options"

section \<open>printSummary\<close>

text \<open>
  The local variables of \<^verbatim>\<open>printSummary\<close> (\<^verbatim>\<open>redirects\<close> is \<open>redirected\<close> here), then the three
  lines it prints. \<^verbatim>\<open>Math.round(x)\<close> is \<open>\<lfloor>x + 1/2\<rfloor>\<close>, which is \<^const>\<open>round\<close>; the quotient is taken
  in the reals, which agrees with the binary64 quotient on sums below 2^52; \<^verbatim>\<open>0 / 0\<close> is \<^verbatim>\<open>NaN\<close>.
\<close>

record summary =
  total :: nat
  successful :: nat
  redirected :: nat
  clientErrors :: nat
  serverErrors :: nat
  failed :: nat
  avgTime :: "int option"

definition summarize :: "check_result list \<Rightarrow> summary" where
  "summarize results =
     \<lparr> total = length results,
       successful = length (filter (\<lambda>r. status r \<ge> 200 \<and> status r < 300) results),
       redirected = length (filter (\<lambda>r. status r \<ge> 300 \<and> status r < 400) results),
       clientErrors = length (filter (\<lambda>r. status r \<ge> 400 \<and> status r < 500) results),
       serverErrors = length (filter (\<lambda>r. status r \<ge> 500) results),
       failed = length (filter (\<lambda>r. status r = 0) results),
       avgTime =
         (if length results = 0 then None
          else Some (round (real_of_int (foldl (\<lambda>sum r. sum + responseTime r) 0 results)
                            / real (length results)))) \<rparr>"

definition show_avg :: "int option \<Rightarrow> string" where
  "show_avg a = (case a of None \<Rightarrow> ''NaN'' | Some n \<Rightarrow> show_int n)"

definition printSummary :: "check_result list \<Rightarrow> string list" where
  "printSummary results =
     (let s = summarize results in
      [ CHR 0x0A # COLORS_cyan @ ''Summary:'' @ COLORS_reset,
        ''  Total: '' @ show_nat (total s) @ '' | '' @
          COLORS_green @ ''OK: '' @ show_nat (successful s) @ COLORS_reset @ '' | '' @
          COLORS_yellow @ ''Redirects: '' @ show_nat (redirected s) @ COLORS_reset @ '' | '' @
          COLORS_red @ ''Client Errors: '' @ show_nat (clientErrors s) @ COLORS_reset @ '' | '' @
          COLORS_magenta @ ''Server Errors: '' @ show_nat (serverErrors s) @ COLORS_reset @ '' | '' @
          COLORS_gray @ ''Failed: '' @ show_nat (failed s) @ COLORS_reset,
        ''  Average response time: '' @ show_avg (avgTime s) @ ''ms'' ])"

section \<open>exportResults and the end of main\<close>

datatype effect =
    Stdout string
  | Stderr string
  | FileWrite string string
  | ProcessExit int

definition dq :: char where "dq = CHR 0x22"

definition csv_header :: string where
  "csv_header = ''URL,Status,Status Text,Response Time (ms),Size (bytes),Error'' @ [CHR 0x0A]"

definition csv_row :: "check_result \<Rightarrow> string" where
  "csv_row r =
     [dq] @ url r @ [dq] @ '','' @ show_int (status r) @ '','' @
     [dq] @ statusText r @ [dq] @ '','' @ show_int (responseTime r) @ '','' @
     show_int (bodySize r) @ '','' @ [dq] @ str_or (error r) [] @ [dq] @ [CHR 0x0A]"

definition csv_content :: "check_result list \<Rightarrow> string" where
  "csv_content results = foldl (\<lambda>content r. content @ csv_row r) csv_header results"

text \<open>
  \<open>Inl msg\<close>: \<^verbatim>\<open>exportResults\<close> threw an \<^verbatim>\<open>Error\<close> with that message (its own, or the one of
  \<^verbatim>\<open>fs.writeFileSync\<close>). \<open>Inr effs\<close>: it returned after the effects \<open>effs\<close>.
\<close>

definition saved_line :: "string \<Rightarrow> string" where
  "saved_line outputPath =
     CHR 0x0A # COLORS_green @ [CHR 0xE2, CHR 0x9C, CHR 0x93] @
     '' Results saved to '' @ outputPath @ COLORS_reset"

definition write_and_report :: "env \<Rightarrow> string \<Rightarrow> string \<Rightarrow> string + effect list" where
  "write_and_report E outputPath content =
     (case writeFileSync E outputPath content of
        Some msg \<Rightarrow> Inl msg
      | None \<Rightarrow> Inr [FileWrite outputPath content, Stdout (saved_line outputPath)])"

definition exportResults :: "env \<Rightarrow> check_result list \<Rightarrow> string \<Rightarrow> string \<Rightarrow> string + effect list" where
  "exportResults E results fmt outputPath =
     (if fmt = ''json'' then write_and_report E outputPath (json_stringify E results)
      else if fmt = ''csv'' then write_and_report E outputPath (csv_content results)
      else Inl (''Unknown format: '' @ fmt))"

text \<open>
  \<^verbatim>\<open>main\<close> from the point where \<^verbatim>\<open>await runChecks(urls, options)\<close> has delivered \<open>results\<close>:
  the summary, the export, the exit code, and the \<^verbatim>\<open>catch\<close> block around them. Reaching the end
  of \<^verbatim>\<open>main\<close> ends the process with code 0. The per-URL lines are printed by the callback inside
  \<^verbatim>\<open>runChecks\<close>, before it delivers the results.
\<close>

definition exit_tail :: "check_result list \<Rightarrow> effect list" where
  "exit_tail results =
     (if length (filter (\<lambda>r. status r = 0 \<or> status r \<ge> 400) results) > 0
      then [ProcessExit 1] else [ProcessExit 0])"

definition main_after_runChecks :: "env \<Rightarrow> options \<Rightarrow> check_result list \<Rightarrow> effect list" where
  "main_after_runChecks E opts results =
     (let printed = (if \<not> quiet opts then map Stdout (printSummary results) else []) in
      case opt_output opts of
        None \<Rightarrow> printed @ exit_tail results
      | Some outputPath \<Rightarrow>
          if outputPath = [] then printed @ exit_tail results
          else (case exportResults E results (format opts) outputPath of
                  Inl msg \<Rightarrow>
                    printed @ [Stderr (COLORS_red @ ''Error: '' @ msg @ COLORS_reset), ProcessExit 1]
                | Inr effs \<Rightarrow> printed @ effs @ exit_tail results))"

section \<open>The CSV reader of the repository (csv2json)\<close>

text \<open>
  \<^verbatim>\<open>parseCSVLine\<close> of the CSV-to-JSON converter (in \<^verbatim>\<open>src/jsonfmt.js\<close>): the loop over the
  characters of a line, with
  the fields found so far (\<open>flds\<close>), the field being read and the \<^verbatim>\<open>inQuotes\<close> flag.
\<close>

function parseCSVLine_loop :: "string \<Rightarrow> string list \<Rightarrow> string \<Rightarrow> bool \<Rightarrow> string list" where
  "parseCSVLine_loop [] flds current inQuotes = flds @ [trim current]"
| "parseCSVLine_loop (c # cs) flds current inQuotes =
     (if c = dq then
        (if inQuotes \<and> (case cs of [] \<Rightarrow> False | d # _ \<Rightarrow> d = dq)
         then parseCSVLine_loop (tl cs) flds (current @ [dq]) inQuotes
         else parseCSVLine_loop cs flds current (\<not> inQuotes))
      else if c = CHR '','' \<and> \<not> inQuotes then parseCSVLine_loop cs (flds @ [trim current]) [] inQuotes
      else parseCSVLine_loop cs flds (current @ [c]) inQuotes)"
  by pat_completeness auto
termination
  by (relation "measure (\<lambda>(line, flds, current, inQuotes). length line)") auto

definition parseCSVLine :: "string \<Rightarrow> string list" where
  "parseCSVLine line = parseCSVLine_loop line [] [] False"

text \<open>\<^verbatim>\<open>input.split('\n')\<close> and the lines \<^verbatim>\<open>convertCSV\<close> keeps (\<^verbatim>\<open>line.trim()\<close> is not empty).\<close>

fun split_lines_acc :: "string \<Rightarrow> string \<Rightarrow> string list" where
  "split_lines_acc cur [] = [rev cur]"
| "split_lines_acc cur (c # cs) =
     (if c = CHR 0x0A then rev cur # split_lines_acc [] cs else split_lines_acc (c # cur) cs)"

definition csv_lines :: "string \<Rightarrow> string list" where
  "csv_lines input = filter (\<lambda>line. trim line \<noteq> []) (split_lines_acc [] input)"

text \<open>The logical fields of a result that a CSV row carries, as strings.\<close>

definition csv_fields :: "check_result \<Rightarrow> string list" where
  "csv_fields r =
     [url r, show_int (status r), statusText r, show_int (responseTime r),
      show_int (bodySize r), str_or (error r) []]"

section \<open>checkURL\<close>

text \<open>
  A call of \<^verbatim>\<open>checkURL\<close> returns a promise. \<open>Resolved r\<close>: the promise is fulfilled with \<open>r\<close>.
  \<open>Rejected msg\<close>: the body of the \<^verbatim>\<open>async\<close> function threw, so the promise is rejected and an
  awaiting caller sees the exception. \<open>Uncaught msg\<close>: an exception left an event callback, or
  a promise nobody handles was rejected; the promise of this call is never settled.

  The function is invoked again for a retry and for a redirect target, and a cycle of
  redirects never ends, so the model takes fuel: one unit per nested call, \<open>None\<close> when it
  runs out. The world counts the requests issued and logs every request and every back-off
  delay.

  An attempt that times out with retries left is retried twice: the \<^verbatim>\<open>'timeout'\<close> handler
  schedules a retry, and so does the \<^verbatim>\<open>'error'\<close> handler, which runs because of
  \<^verbatim>\<open>req.destroy()\<close>; both pass the same \<^verbatim>\<open>resolve\<close>, so the retry that finishes first decides the
  result. The two retries run side by side. The model visits the one of the \<^verbatim>\<open>'timeout'\<close>
  handler with all its calls first and the other one after it, so across the two the request
  numbers and the order of the log name the events, they are not a timeline; the two delays
  are logged where they are scheduled. When the last attempt times out, the \<^verbatim>\<open>'timeout'\<close>
  handler resolves the promise and the later \<^verbatim>\<open>resolve\<close> of the \<^verbatim>\<open>'error'\<close> handler has no effect.
\<close>

datatype 'a settled = Resolved 'a | Rejected string | Uncaught string

datatype event = Attempt nat string int | Backoff int

record world =
  issued :: nat
  log :: "event list"

definition requestOptions :: "parsed_url \<Rightarrow> options \<Rightarrow> request" where
  "requestOptions parsedURL opts =
     \<lparr> rq_hostname = u_hostname parsedURL,
       rq_port = (if u_port parsedURL \<noteq> [] then u_port parsedURL
                  else if u_protocol parsedURL = ''https:'' then ''443'' else ''80''),
       rq_path = u_pathname parsedURL @ u_search parsedURL,
       rq_method = opt_method opts,
       rq_headers =
         foldl (\<lambda>hs (k, v). AList.update k v hs)
           [(''User-Agent'', ''httpcheck/1.0.0''), (''Accept'', ''*/*''), (''Connection'', ''close'')]
           (headers opts),
       rq_timeout = timeout opts \<rparr>"

definition statusTextOf :: "int \<Rightarrow> string" where
  "statusTextOf code = str_or (map_of STATUS_CODES code) ''Unknown''"

text \<open>
  \<^verbatim>\<open>res.req?._redirectCount\<close>: \<^verbatim>\<open>res.req\<close> is the request object that \<^verbatim>\<open>protocol.request\<close>
  returned. The program never assigns a \<^verbatim>\<open>_redirectCount\<close> property and the \<^verbatim>\<open>http\<close> module
  does not define one, so the read yields \<^verbatim>\<open>undefined\<close>.
\<close>

definition res_req_redirectCount :: "int option" where
  "res_req_redirectCount = None"

definition response_result ::
  "string \<Rightarrow> int \<Rightarrow> (string \<times> string) list \<Rightarrow> string \<Rightarrow> int \<Rightarrow> check_result" where
  "response_result u statusCode hdrs body ms =
     \<lparr> url = u, status = statusCode, statusText = statusTextOf statusCode, responseTime = ms,
       bodySize = int (length body), resHeaders = hdrs, redirects = [], error = None \<rparr>"

definition error_result :: "string \<Rightarrow> string \<Rightarrow> int \<Rightarrow> check_result" where
  "error_result u msg ms =
     \<lparr> url = u, status = 0, statusText = ''Error'', responseTime = ms, bodySize = 0,
       resHeaders = [], redirects = [], error = Some msg \<rparr>"

definition timeout_result :: "string \<Rightarrow> options \<Rightarrow> check_result" where
  "timeout_result u opts =
     \<lparr> url = u, status = 0, statusText = ''Timeout'', responseTime = timeout opts, bodySize = 0,
       resHeaders = [], redirects = [], error = Some ''Request timeout'' \<rparr>"

text \<open>The body of the \<^verbatim>\<open>then\<close> callback that folds the result of the redirect target in.\<close>

definition merge_redirect :: "check_result \<Rightarrow> check_result \<Rightarrow> check_result" where
  "merge_redirect result redirectResult =
     result\<lparr> status := status redirectResult,
             statusText := statusText redirectResult,
             responseTime := responseTime result + responseTime redirectResult,
             bodySize := bodySize redirectResult,
             resHeaders := resHeaders redirectResult,
             redirects := redirects result @ redirects redirectResult \<rparr>"

text \<open>
  What a promise passed to \<^verbatim>\<open>.then(resolve)\<close> does to the promise behind \<^verbatim>\<open>resolve\<close>: a result
  resolves it, a rejection is handled by nobody. Of two such promises the first to finish
  decides.
\<close>

fun unhandled :: "check_result settled \<Rightarrow> check_result settled" where
  "unhandled (Resolved r) = Resolved r"
| "unhandled (Rejected msg) = Uncaught msg"
| "unhandled (Uncaught msg) = Uncaught msg"

definition first_settled ::
  "bool \<Rightarrow> check_result settled \<Rightarrow> check_result settled \<Rightarrow> check_result settled" where
  "first_settled first ra rb = unhandled (if first then ra else rb)"

definition is_redirect_response :: "options \<Rightarrow> int \<Rightarrow> (string \<times> string) list \<Rightarrow> bool" where
  "is_redirect_response opts statusCode hdrs =
     (followRedirects opts \<and> statusCode \<in> set [301, 302, 307, 308] \<and>
      truthy_str (map_of hdrs ''location''))"

fun checkURL ::
  "nat \<Rightarrow> env \<Rightarrow> options \<Rightarrow> string \<Rightarrow> int \<Rightarrow> world \<Rightarrow> (check_result settled \<times> world) option" where
  "checkURL 0 E opts u attempt w = None"
| "checkURL (Suc fuel) E opts u attempt w =
     (case parseURL E u of
        None \<Rightarrow> Some (Rejected ''Invalid URL'', w)
      | Some parsedURL \<Rightarrow>
          (case requestError E (u_protocol parsedURL = ''https:'') (requestOptions parsedURL opts) of
             Some thrown \<Rightarrow> Some (Rejected thrown, w)
           | None \<Rightarrow>
          let w1 = w\<lparr>issued := issued w + 1, log := log w @ [Attempt (issued w) u attempt]\<rparr> in
          (case net E (issued w) (u_protocol parsedURL = ''https:'') (requestOptions parsedURL opts) of
             Response statusCode hdrs body ms \<Rightarrow>
               let result = response_result u statusCode hdrs body ms in
               if is_redirect_response opts statusCode hdrs then
                 let redirectCount = num_or res_req_redirectCount 0 + 1 in
                 if redirectCount \<le> maxRedirects opts then
                   (case resolveURL E (str_or (map_of hdrs ''location'') []) u of
                      None \<Rightarrow> Some (Uncaught ''Invalid URL'', w1)
                    | Some redirectURL \<Rightarrow>
                        let result1 = result\<lparr>redirects :=
                              [\<lparr>r_from = u, r_to = redirectURL, r_status = statusCode\<rparr>]\<rparr> in
                        (case checkURL fuel E opts redirectURL 1 w1 of
                           None \<Rightarrow> None
                         | Some (Resolved redirectResult, w2) \<Rightarrow>
                             Some (Resolved (merge_redirect result1 redirectResult), w2)
                         | Some (Rejected msg, w2) \<Rightarrow> Some (Uncaught msg, w2)
                         | Some (Uncaught msg, w2) \<Rightarrow> Some (Uncaught msg, w2)))
                 else Some (Resolved result, w1)
               else Some (Resolved result, w1)
           | NetError msg ms \<Rightarrow>
               if attempt < retries opts
               then checkURL fuel E opts u (attempt + 1) (w1\<lparr>log := log w1 @ [Backoff (1000 * attempt)]\<rparr>)
               else Some (Resolved (error_result u msg ms), w1)
           | Timeout \<Rightarrow>
               if attempt < retries opts
               then (case checkURL fuel E opts u (attempt + 1)
                            (w1\<lparr>log := log w1 @ [Backoff (1000 * attempt), Backoff (1000 * attempt)]\<rparr>) of
                       None \<Rightarrow> None
                     | Some (ra, wa) \<Rightarrow>
                         (case checkURL fuel E opts u (attempt + 1) wa of
                            None \<Rightarrow> None
                          | Some (rb, wb) \<Rightarrow> Some (first_settled (race E (issued w)) ra rb, wb)))
               else Some (Resolved (timeout_result u opts), w1))))"

declare checkURL.simps(2) [simp del]

definition world0 :: world where
  "world0 = \<lparr> issued = 0, log = [] \<rparr>"

text \<open>
  What happens to the request \<open>k\<close> when it is sent for the URL \<open>u\<close>; \<open>None\<close> if \<open>u\<close> does not
  parse or the request is refused before it is sent.
\<close>

definition fetch :: "env \<Rightarrow> options \<Rightarrow> nat \<Rightarrow> string \<Rightarrow> outcome option" where
  "fetch E opts k u =
     (case parseURL E u of
        None \<Rightarrow> None
      | Some parsedURL \<Rightarrow>
          (case requestError E (u_protocol parsedURL = ''https:'') (requestOptions parsedURL opts) of
             Some thrown \<Rightarrow> None
           | None \<Rightarrow>
               Some (net E k (u_protocol parsedURL = ''https:'') (requestOptions parsedURL opts))))"

section \<open>runChecks\<close>

text \<open>
  A promise object has an internal state, which no property exposes, and own properties.
  The promises in \<^verbatim>\<open>running\<close> are created by \<^verbatim>\<open>checkURL(url, options).then(...)\<close>: native
  promises, with no own property. \<^verbatim>\<open>running[i].isFulfilled\<close> is a property read.
\<close>

record promise =
  p_url :: string
  p_settled :: bool
  p_props :: "(string \<times> bool) list"

definition new_promise :: "string \<Rightarrow> promise" where
  "new_promise u = \<lparr> p_url = u, p_settled = False, p_props = [] \<rparr>"

definition get_prop :: "promise \<Rightarrow> string \<Rightarrow> bool" where
  "get_prop p name = (case map_of (p_props p) name of None \<Rightarrow> False | Some b \<Rightarrow> b)"

text \<open>The inner \<^verbatim>\<open>while\<close>: start checks while there is room and the queue is not empty.\<close>

fun dispatch :: "int \<Rightarrow> string list \<Rightarrow> promise list \<Rightarrow> string list \<times> promise list" where
  "dispatch c [] running = ([], running)"
| "dispatch c (u # queue) running =
     (if int (length running) < c then dispatch c queue (running @ [new_promise u])
      else (u # queue, running))"

text \<open>
  \<^verbatim>\<open>await Promise.race(running)\<close>. If a promise of \<^verbatim>\<open>running\<close> is already settled, the race is
  settled and the loop goes on at once. Otherwise the loop waits for the first check to
  finish: \<open>pick\<close> chooses which one, its callback pushes the result \<open>chk url\<close> (every check is
  taken to finish), and the promise becomes settled.
\<close>

definition await_race ::
  "(promise list \<Rightarrow> nat) \<Rightarrow> (string \<Rightarrow> check_result) \<Rightarrow> check_result list \<Rightarrow> promise list
     \<Rightarrow> check_result list \<times> promise list" where
  "await_race pick chk results running =
     (if \<exists>p \<in> set running. p_settled p then (results, running)
      else let i = pick running mod length running; p = running ! i
           in (results @ [chk (p_url p)], running[i := p\<lparr>p_settled := True\<rparr>]))"

text \<open>The \<^verbatim>\<open>for\<close> loop from \<^verbatim>\<open>running.length - 1\<close> down to 0 with its \<^verbatim>\<open>splice(i, 1)\<close>.\<close>

fun remove_completed :: "nat \<Rightarrow> promise list \<Rightarrow> promise list" where
  "remove_completed 0 running = running"
| "remove_completed (Suc i) running =
     remove_completed i
       (if get_prop (running ! i) ''isFulfilled'' then take i running @ drop (Suc i) running
        else running)"

fun runChecks_loop ::
  "nat \<Rightarrow> int \<Rightarrow> (promise list \<Rightarrow> nat) \<Rightarrow> (string \<Rightarrow> check_result) \<Rightarrow>
     check_result list \<Rightarrow> string list \<Rightarrow> promise list \<Rightarrow> check_result list option" where
  "runChecks_loop 0 c pick chk results queue running = None"
| "runChecks_loop (Suc fuel) c pick chk results queue running =
     (if length queue > 0 \<or> length running > 0 then
        (case dispatch c queue running of
           (queue1, running1) \<Rightarrow>
             if length running1 > 0 then
               (case await_race pick chk results running1 of
                  (results2, running2) \<Rightarrow>
                    runChecks_loop fuel c pick chk results2 queue1
                      (remove_completed (length running2) running2))
             else runChecks_loop fuel c pick chk results queue1 running1)
      else Some results)"

text \<open>
  \<open>runChecks fuel pick chk urls opts\<close>: \<open>Some results\<close> if the function returns within \<open>fuel\<close>
  iterations of the outer loop, \<open>None\<close> if it is still looping then.
\<close>

definition runChecks ::
  "nat \<Rightarrow> (promise list \<Rightarrow> nat) \<Rightarrow> (string \<Rightarrow> check_result) \<Rightarrow> string list \<Rightarrow> options
     \<Rightarrow> check_result list option" where
  "runChecks fuel pick chk us opts = runChecks_loop fuel (concurrent opts) pick chk [] us []"

section \<open>printResult, readURLsFromFile and main\<close>

text \<open>The text that \<^verbatim>\<open>showHelp\<close> prints, line by line; the lines are joined by newlines.\<close>

definition showHelp_lines :: "string list" where
  "showHelp_lines =
     [[],
      COLORS_cyan @ ''HTTP Status Checker CLI'' @ COLORS_reset,
      [],
      ''Usage: httpcheck <url> [options]'',
      ''       httpcheck --file urls.txt [options]'',
      [],
      ''Options:'',
      ''  -h, --help              Show this help message'',
      ''  -v, --version           Show version'',
      ''  -f, --file <path>       Read URLs from file (one per line)'',
      ''  -t, --timeout <ms>      Request timeout in milliseconds (default: 10000)'',
      ''  -r, --retries <n>       Number of retries on failure (default: 1)'',
      ''  --no-redirect           Don'' @ [CHR 0x27] @ ''t follow redirects'',
      ''  --max-redirects <n>     Maximum redirects to follow (default: 10)'',
      ''  -m, --method <method>   HTTP method (default: GET)'',
      ''  -H, --header <header>   Add custom header (format: '' @ [dq] @ ''Key: Value'' @ [dq] @ '')'',
      ''  -o, --output <file>     Save results to file'',
      ''  --format <format>       Output format: table, json, csv (default: table)'',
      ''  -c, --concurrent <n>    Max concurrent requests (default: 5)'',
      ''  -V, --verbose           Show detailed output'',
      ''  -q, --quiet             Only show errors'',
      [],
      ''Examples:'',
      ''  httpcheck https://example.com'',
      ''  httpcheck https://example.com --no-redirect'',
      ''  httpcheck -f urls.txt -t 5000'',
      ''  httpcheck https://api.example.com -m POST -H '' @ [dq] @ ''Authorization: Bearer token'' @ [dq],
      ''  httpcheck -f urls.txt --format json -o results.json'',
      []]"

fun join_lines :: "string list \<Rightarrow> string" where
  "join_lines [] = []"
| "join_lines [l] = l"
| "join_lines (l # m # ls) = l @ [CHR 0x0A] @ join_lines (m # ls)"

text \<open>The lines that \<^verbatim>\<open>printResult\<close> prints for one result.\<close>

definition printResult :: "check_result \<Rightarrow> options \<Rightarrow> string list" where
  "printResult result opts =
     (let statusColor =
            (if status result \<ge> 200 \<and> status result < 300 then COLORS_green
             else if status result \<ge> 300 \<and> status result < 400 then COLORS_yellow
             else if status result \<ge> 400 then COLORS_red
             else COLORS_gray);
          timeColor =
            (if responseTime result < 500 then COLORS_green
             else if responseTime result < 2000 then COLORS_yellow
             else COLORS_red);
          line0 = statusColor @ ''['' @ show_int (status result) @ '']'' @ COLORS_reset @ '' '' @
                  url result @
                  '' '' @ timeColor @ ''('' @ show_int (responseTime result) @ ''ms)'' @ COLORS_reset;
          line1 =
            (if truthy_str (error result)
             then line0 @ '' '' @ COLORS_red @ [CHR 0xE2, CHR 0x9C, CHR 0x97] @ '' '' @
                  str_or (error result) [] @ COLORS_reset
             else if length (redirects result) > 0
             then line0 @ '' '' @ COLORS_yellow @ [CHR 0xE2, CHR 0x86, CHR 0x92] @ '' '' @
                  show_nat (length (redirects result)) @ '' redirect(s)'' @ COLORS_reset
             else line0)
      in line1 #
         (if verbose opts \<and> length (redirects result) > 0
          then map (\<lambda>redirect.
                 ''    '' @ COLORS_gray @ [CHR 0xE2, CHR 0x86, CHR 0x92] @ '' '' @ r_from redirect @
                 '' '' @ [CHR 0xE2, CHR 0x86, CHR 0x92] @ '' '' @ r_to redirect @
                 '' ('' @ show_int (r_status redirect) @ '')'' @ COLORS_reset)
               (redirects result)
          else []))"

text \<open>\<open>Inl msg\<close>: \<^verbatim>\<open>readURLsFromFile\<close> threw an \<^verbatim>\<open>Error\<close> with that message.\<close>

definition add_protocol :: "string \<Rightarrow> string" where
  "add_protocol line =
     (if startsWith line ''http://'' \<or> startsWith line ''https://'' then line
      else ''https://'' @ line)"

definition readURLsFromFile :: "env \<Rightarrow> string \<Rightarrow> string + string list" where
  "readURLsFromFile E filePath =
     (case readFileSync E filePath of
        None \<Rightarrow> Inl (''File not found: '' @ filePath)
      | Some content \<Rightarrow>
          Inr (map add_protocol
                (filter (\<lambda>line. line \<noteq> [] \<and> \<not> startsWith line ''#'')
                  (map trim (split_lines_acc [] content)))))"

text \<open>
  \<^verbatim>\<open>main\<close> on the arguments \<open>args\<close>: the effects of the run up to the end of the process, or
  \<open>None\<close> if \<^verbatim>\<open>await runChecks(urls, options)\<close> has not returned within \<open>fuel\<close> iterations of its
  loop. The callback in \<^verbatim>\<open>runChecks\<close> pushes a result and prints it at once (unless
  \<^verbatim>\<open>--quiet\<close>), so when \<^verbatim>\<open>runChecks\<close> returns, the per-URL lines printed are those of the results
  in the order of the list.
\<close>

definition main ::
  "nat \<Rightarrow> env \<Rightarrow> (promise list \<Rightarrow> nat) \<Rightarrow> (string \<Rightarrow> check_result) \<Rightarrow> string list
     \<Rightarrow> effect list option" where
  "main fuel E pick chk args =
     (case parseArgs E args of
        Exit_help \<Rightarrow> Some [Stdout (join_lines showHelp_lines), ProcessExit 0]
      | Exit_version \<Rightarrow> Some [Stdout ''httpcheck v1.0.0'', ProcessExit 0]
      | Parsed opts \<Rightarrow>
          (case (if truthy_str (opt_file opts)
                 then readURLsFromFile E (str_or (opt_file opts) []) else Inr []) of
             Inl msg \<Rightarrow>
               Some [Stderr (COLORS_red @ ''Error: '' @ msg @ COLORS_reset), ProcessExit 1]
           | Inr fileURLs \<Rightarrow>
               let us = urls opts @ fileURLs in
               if length us = 0
               then Some [Stderr (COLORS_red @ ''Error: No URLs provided'' @ COLORS_reset),
                          Stderr ''Use --help for usage information'', ProcessExit 1]
               else (case runChecks fuel pick chk us opts of
                       None \<Rightarrow> None
                     | Some results \<Rightarrow>
                         Some ((if \<not> quiet opts
                                then Stdout (COLORS_cyan @ ''Checking '' @ show_nat (length us) @
                                             '' URL(s)...'' @ COLORS_reset @ [CHR 0x0A]) #
                                     map Stdout (concat (map (\<lambda>r. printResult r opts) results))
                                else []) @
                               main_after_runChecks E opts results))))"

section \<open>A small network for concrete runs\<close>

text \<open>
  Three hosts that redirect \<open>a\<close> to \<open>b\<close> to \<open>c\<close>, where \<open>c\<close> answers 200, and a host \<open>down\<close>
  whose requests fail: the first with a connection error, the second with a timeout, every
  later one with another connection error. Strings without a scheme are not URLs. A request
  with a negative timeout, with a space in its method or with an empty header name is
  refused (the messages are shortened). Of two retries after a timeout, the one scheduled by
  the \<^verbatim>\<open>'timeout'\<close> handler finishes first. There is no file.
\<close>

definition demo_parseURL :: "string \<Rightarrow> parsed_url option" where
  "demo_parseURL s =
     (if s \<in> set [''http://a/'', ''http://b/'', ''http://c/'', ''http://down/'']
      then Some \<lparr> u_protocol = ''http:'', u_hostname = butlast (drop 7 s), u_port = [],
                   u_pathname = ''/'', u_search = [] \<rparr>
      else None)"

definition demo_net :: "nat \<Rightarrow> bool \<Rightarrow> request \<Rightarrow> outcome" where
  "demo_net k secure rq =
     (if rq_hostname rq = ''a'' then Response 302 [(''location'', ''http://b/'')] [] 10
      else if rq_hostname rq = ''b'' then Response 302 [(''location'', ''http://c/'')] [] 20
      else if rq_hostname rq = ''c'' then Response 200 [(''content-type'', ''text/plain'')] ''hello'' 30
      else if k = 0 then NetError ''getaddrinfo ENOTFOUND down'' 3
      else if k = 1 then Timeout
      else NetError ''connect ECONNREFUSED'' 7)"

definition demo_requestError :: "bool \<Rightarrow> request \<Rightarrow> string option" where
  "demo_requestError secure rq =
     (if rq_timeout rq < 0 then Some ''The value of timeout is out of range''
      else if CHR '' '' \<in> set (rq_method rq) then Some ''Method must be a valid HTTP token''
      else if [] \<in> set (map fst (rq_headers rq)) then Some ''Header name must be a valid HTTP token''
      else None)"

definition demo_env :: env where
  "demo_env =
     \<lparr> parseURL = demo_parseURL,
       resolveURL = (\<lambda>loc base. if demo_parseURL loc = None then None else Some loc),
       requestError = demo_requestError,
       net = demo_net,
       race = (\<lambda>k. True),
       json_stringify = (\<lambda>results. ''[]''),
       writeFileSync = (\<lambda>path content. None),
       readFileSync = (\<lambda>path. None) \<rparr>"

definition demo_result :: "int \<Rightarrow> int \<Rightarrow> string option \<Rightarrow> check_result" where
  "demo_result code ms err =
     \<lparr> url = ''http://a/'', status = code, statusText = statusTextOf code, responseTime = ms,
       bodySize = 0, resHeaders = [], redirects = [], error = err \<rparr>"

section \<open>Notions used to state the properties\<close>

text \<open>The 5xx class and the exact mean, in the words of the specification.\<close>

definition spec_serverErrors :: "check_result list \<Rightarrow> nat" where
  "spec_serverErrors results = length (filter (\<lambda>r. 500 \<le> status r \<and> status r < 600) results)"

definition spec_mean :: "check_result list \<Rightarrow> real" where
  "spec_mean results = real_of_int (sum_list (map responseTime results)) / real (length results)"

text \<open>A request that ends in the \<^verbatim>\<open>'error'\<close> or the \<^verbatim>\<open>'timeout'\<close> event, and what is reported for it.\<close>

fun is_failure :: "outcome option \<Rightarrow> bool" where
  "is_failure (Some (NetError msg ms)) = True"
| "is_failure (Some Timeout) = True"
| "is_failure _ = False"

fun is_error :: "outcome option \<Rightarrow> bool" where
  "is_error (Some (NetError msg ms)) = True"
| "is_error _ = False"

fun failure_result :: "string \<Rightarrow> options \<Rightarrow> outcome option \<Rightarrow> check_result" where
  "failure_result u opts (Some (NetError msg ms)) = error_result u msg ms"
| "failure_result u opts _ = timeout_result u opts"

fun failure_message :: "outcome option \<Rightarrow> string" where
  "failure_message (Some (NetError msg ms)) = msg"
| "failure_message _ = ''Request timeout''"

fun failure_time :: "options \<Rightarrow> outcome option \<Rightarrow> int" where
  "failure_time opts (Some (NetError msg ms)) = ms"
| "failure_time opts _ = timeout opts"

text \<open>
  The log of \<open>f\<close> attempts that failed with a connection error, numbered \<open>a\<close>, \<open>a + 1\<close>, ..., each followed by its back-off
  delay, when the first of them is request number \<open>k\<close>.
\<close>

fun retry_log :: "nat \<Rightarrow> string \<Rightarrow> int \<Rightarrow> nat \<Rightarrow> event list" where
  "retry_log k u a 0 = []"
| "retry_log k u a (Suc f) = Attempt k u a # Backoff (1000 * a) # retry_log (Suc k) u (a + 1) f"

text \<open>
  A hop of a redirect chain: the check of \<open>h_from\<close> fails \<open>h_failures\<close> times with a connection
  error, is retried each time, and then receives the status \<open>h_status\<close> after \<open>h_elapsed\<close> milliseconds, with a
  \<^verbatim>\<open>Location\<close> that resolves to \<open>h_to\<close>. \<open>hop_world\<close> is the world after the hop, and
  \<open>chain_from E opts w u hs\<close> says that the hops \<open>hs\<close> happen one after the other when the
  check of \<open>u\<close> starts in the world \<open>w\<close>.
\<close>

record hop =
  h_failures :: nat
  h_from :: string
  h_status :: int
  h_elapsed :: int
  h_to :: string

definition hop_world :: "world \<Rightarrow> hop \<Rightarrow> world" where
  "hop_world w h =
     \<lparr> issued = issued w + h_failures h + 1,
       log = log w @ retry_log (issued w) (h_from h) 1 (h_failures h) @
             [Attempt (issued w + h_failures h) (h_from h) (1 + int (h_failures h))] \<rparr>"

definition hop_ok :: "env \<Rightarrow> options \<Rightarrow> world \<Rightarrow> hop \<Rightarrow> bool" where
  "hop_ok E opts w h =
     (int (h_failures h) < retries opts \<and>
      list_all (\<lambda>j. is_error (fetch E opts (issued w + j) (h_from h))) [0..<h_failures h] \<and>
      (case fetch E opts (issued w + h_failures h) (h_from h) of
         Some (Response statusCode hdrs body ms) \<Rightarrow>
           statusCode = h_status h \<and> ms = h_elapsed h \<and>
           is_redirect_response opts statusCode hdrs \<and>
           resolveURL E (str_or (map_of hdrs ''location'') []) (h_from h) = Some (h_to h)
       | _ \<Rightarrow> False))"

fun chain_from :: "env \<Rightarrow> options \<Rightarrow> world \<Rightarrow> string \<Rightarrow> hop list \<Rightarrow> bool" where
  "chain_from E opts w u [] = True"
| "chain_from E opts w u (h # hs) =
     (h_from h = u \<and> hop_ok E opts w h \<and> chain_from E opts (hop_world w h) (h_to h) hs)"

fun chain_world :: "world \<Rightarrow> hop list \<Rightarrow> world" where
  "chain_world w [] = w"
| "chain_world w (h # hs) = chain_world (hop_world w h) hs"

definition chain_end :: "string \<Rightarrow> hop list \<Rightarrow> string" where
  "chain_end u hs = (if hs = [] then u else h_to (last hs))"

definition hop_entry :: "hop \<Rightarrow> redirect_entry" where
  "hop_entry h = \<lparr> r_from = h_from h, r_to = h_to h, r_status = h_status h \<rparr>"

definition chain_fuel :: "hop list \<Rightarrow> nat" where
  "chain_fuel hs = sum_list (map (\<lambda>h. h_failures h + 1) hs)"

fun is_attempt :: "event \<Rightarrow> bool" where
  "is_attempt (Attempt k u a) = True"
| "is_attempt (Backoff ms) = False"

definition count_attempts :: "event list \<Rightarrow> nat" where
  "count_attempts evs = length (filter is_attempt evs)"

text \<open>Result sets and chains for concrete runs.\<close>

definition demo_results :: "check_result list" where
  "demo_results =
     [demo_result 200 100 None, demo_result 200 200 None, demo_result 404 300 None,
      demo_result 0 10000 (Some ''Request timeout'')]"

definition odd_results :: "check_result list" where
  "odd_results = [demo_result 999 1 None, demo_result 200 2 None]"

definition quoted_result :: check_result where
  "quoted_result = demo_result 0 5 (Some (''bad '' @ [dq] @ ''x'' @ [dq] @ '', y''))"

definition demo_hops :: "hop list" where
  "demo_hops =
     [\<lparr> h_failures = 0, h_from = ''http://a/'', h_status = 302, h_elapsed = 10, h_to = ''http://b/'' \<rparr>,
      \<lparr> h_failures = 0, h_from = ''http://b/'', h_status = 302, h_elapsed = 20, h_to = ''http://c/'' \<rparr>]"

section \<open>Properties of parseArgs\<close>

lemma num_or_nonzero: "d \<noteq> 0 \<Longrightarrow> num_or v d \<noteq> 0"
  by (simp add: num_or_def split: option.splits)

lemma num_or_falsy: "v = None \<or> v = Some 0 \<Longrightarrow> num_or v d = d"
  by (auto simp: num_or_def)

lemma parseInt_zero: "parseInt (Some ''0'') = Some 0"
  by (simp add: parseInt_def toString_arg_def isWhiteSpace_def startsWith_def is_digit_in_def
      digit_of_def digits_value_def)

lemma parseInt_undefined: "parseInt None = None"
  by (simp add: parseInt_def toString_arg_def isWhiteSpace_def startsWith_def is_digit_in_def
      digit_of_def digits_value_def)

lemma parseInt_not_a_number: "parseInt (Some ''abc'') = None"
  by (simp add: parseInt_def toString_arg_def isWhiteSpace_def startsWith_def is_digit_in_def
      digit_of_def digits_value_def)

text \<open>
  One iteration of the argument loop either leaves the program or goes on with fewer
  arguments and settings that are still different from zero.
\<close>

lemma parseArgs_loop_step:
  assumes "numeric_nonzero opts"
  shows "parseArgs_loop E (arg # rest) opts = Exit_help \<or>
         parseArgs_loop E (arg # rest) opts = Exit_version \<or>
         (\<exists>rest' opts'. length rest' \<le> length rest \<and> numeric_nonzero opts' \<and>
             parseArgs_loop E (arg # rest) opts = parseArgs_loop E rest' opts')"
proof -
  define P where "P x \<longleftrightarrow> x = Exit_help \<or> x = Exit_version \<or>
         (\<exists>rest' opts'. length rest' \<le> length rest \<and> numeric_nonzero opts' \<and>
             x = parseArgs_loop E rest' opts')" for x
  have h: "P Exit_help" "P Exit_version"
    by (simp_all add: P_def)
  have k: "numeric_nonzero opts' \<Longrightarrow> P (parseArgs_loop E rest opts')"
     "numeric_nonzero opts' \<Longrightarrow> P (parseArgs_loop E (tl rest) opts')" for opts'
    unfolding P_def by (blast, metis diff_le_self length_tl)
  have nz: "numeric_nonzero (opts\<lparr>opt_file := a\<rparr>)"
    "numeric_nonzero (opts\<lparr>timeout := num_or b 10000\<rparr>)"
    "numeric_nonzero (opts\<lparr>retries := num_or b 1\<rparr>)"
    "numeric_nonzero (opts\<lparr>followRedirects := c\<rparr>)"
    "numeric_nonzero (opts\<lparr>maxRedirects := num_or b 10\<rparr>)"
    "numeric_nonzero (opts\<lparr>opt_method := d\<rparr>)"
    "numeric_nonzero (opts\<lparr>headers := e\<rparr>)"
    "numeric_nonzero (opts\<lparr>opt_output := a\<rparr>)"
    "numeric_nonzero (opts\<lparr>format := d\<rparr>)"
    "numeric_nonzero (opts\<lparr>concurrent := num_or b 5\<rparr>)"
    "numeric_nonzero (opts\<lparr>verbose := c\<rparr>)"
    "numeric_nonzero (opts\<lparr>quiet := c\<rparr>)"
    "numeric_nonzero (opts\<lparr>urls := f\<rparr>)"
    "numeric_nonzero opts" for a b c d e f
    using assms by (simp_all add: numeric_nonzero_def num_or_nonzero)
  have "P (parseArgs_loop E (arg # rest) opts)"
    apply (subst parseArgs_loop.simps(2))
    apply (simp only: split: if_split)
    apply (intro conjI impI h k nz)
    done
  then show ?thesis
    unfolding P_def .
qed

lemma parseArgs_loop_nonzero:
  "numeric_nonzero opts \<Longrightarrow> parseArgs_loop E args opts = Parsed r \<Longrightarrow> numeric_nonzero r"
proof (induction "length args" arbitrary: args opts rule: less_induct)
  case less
  show ?case
  proof (cases args)
    case Nil
    with less.prems show ?thesis by simp
  next
    case (Cons arg rest)
    from parseArgs_loop_step [OF less.prems(1), of E arg rest] less.prems(2) Cons
    obtain rest' opts' where "length rest' \<le> length rest" "numeric_nonzero opts'"
      "parseArgs_loop E rest' opts' = Parsed r"
      by auto
    with less.hyps [of rest' opts'] Cons show ?thesis by simp
  qed
qed

text \<open>
  Claim C9. When the value handed to a numeric flag parses to 0 or to NaN (a non-numeric
  value, or no value at all), \<^verbatim>\<open>parseArgs\<close> stores the default: 10000 for
  \<^verbatim>\<open>--timeout\<close>/\<^verbatim>\<open>-t\<close>, 1 for \<^verbatim>\<open>--retries\<close>/\<^verbatim>\<open>-r\<close>, 10 for \<^verbatim>\<open>--max-redirects\<close> and 5 for
  \<^verbatim>\<open>--concurrent\<close>/\<^verbatim>\<open>-c\<close>. The text \<^verbatim>\<open>0\<close> parses to 0, the text \<^verbatim>\<open>abc\<close> and a missing value to NaN. Whatever the
  argument list, the options that \<^verbatim>\<open>parseArgs\<close> returns never have a zero timeout, retry count,
  redirect ceiling or concurrency limit.
\<close>

theorem parseArgs_zero_gives_default:
  "(parseInt (next_arg rest) = None \<or> parseInt (next_arg rest) = Some 0 \<longrightarrow>
      parseArgs_loop E (''--timeout'' # rest) opts = parseArgs_loop E (tl rest) (opts\<lparr>timeout := 10000\<rparr>) \<and>
      parseArgs_loop E (''-t'' # rest) opts = parseArgs_loop E (tl rest) (opts\<lparr>timeout := 10000\<rparr>) \<and>
      parseArgs_loop E (''--retries'' # rest) opts = parseArgs_loop E (tl rest) (opts\<lparr>retries := 1\<rparr>) \<and>
      parseArgs_loop E (''-r'' # rest) opts = parseArgs_loop E (tl rest) (opts\<lparr>retries := 1\<rparr>) \<and>
      parseArgs_loop E (''--max-redirects'' # rest) opts = parseArgs_loop E (tl rest) (opts\<lparr>maxRedirects := 10\<rparr>) \<and>
      parseArgs_loop E (''--concurrent'' # rest) opts = parseArgs_loop E (tl rest) (opts\<lparr>concurrent := 5\<rparr>) \<and>
      parseArgs_loop E (''-c'' # rest) opts = parseArgs_loop E (tl rest) (opts\<lparr>concurrent := 5\<rparr>)) \<and>
   parseInt (Some ''0'') = Some 0 \<and> parseInt (Some ''abc'') = None \<and> parseInt None = None \<and>
   (\<forall>r. parseArgs E args = Parsed r \<longrightarrow>
      timeout r \<noteq> 0 \<and> retries r \<noteq> 0 \<and> maxRedirects r \<noteq> 0 \<and> concurrent r \<noteq> 0)"
proof -
  have "numeric_nonzero default_options"
    by (simp add: numeric_nonzero_def default_options_def)
  then have inv: "\<forall>r. parseArgs E args = Parsed r \<longrightarrow>
      timeout r \<noteq> 0 \<and> retries r \<noteq> 0 \<and> maxRedirects r \<noteq> 0 \<and> concurrent r \<noteq> 0"
    unfolding parseArgs_def
    using parseArgs_loop_nonzero [of default_options E args]
    by (simp add: numeric_nonzero_def)
  show ?thesis
    using inv parseInt_zero parseInt_undefined parseInt_not_a_number
    by (auto simp: parseArgs_loop.simps(2) num_or_falsy)
qed

text \<open>
  The command line \<^verbatim>\<open>--timeout 0 --retries 0 --max-redirects 0 --concurrent 0\<close> yields the
  default options.
\<close>

theorem parseArgs_zero_gives_default_witness:
  "parseInt (next_arg [''0'', ''--retries'', ''0'']) = Some 0 \<and>
   parseArgs_loop demo_env [''--timeout'', ''0'', ''--retries'', ''0''] default_options
     = parseArgs_loop demo_env [''--retries'', ''0''] default_options \<and>
   parseArgs demo_env [''--timeout'', ''0'', ''--retries'', ''0'', ''--max-redirects'', ''0'', ''--concurrent'', ''0'']
     = Parsed default_options \<and>
   timeout default_options = 10000 \<and> retries default_options = 1 \<and>
   maxRedirects default_options = 10 \<and> concurrent default_options = 5"
proof -
  have z: "parseInt (next_arg (''0'' # xs)) = Some 0" for xs
    using parseInt_zero by (simp add: next_arg_def)
  have d1: "default_options\<lparr>timeout := 10000\<rparr> = default_options"
    and d2: "default_options\<lparr>retries := 1\<rparr> = default_options"
    and d3: "default_options\<lparr>maxRedirects := 10\<rparr> = default_options"
    and d4: "default_options\<lparr>concurrent := 5\<rparr> = default_options"
    by (simp_all add: default_options_def)
  have d5: "timeout default_options = 10000 \<and> retries default_options = 1 \<and>
     maxRedirects default_options = 10 \<and> concurrent default_options = 5"
    by (simp add: default_options_def)
  note t = parseArgs_zero_gives_default [of _ demo_env default_options "[]"]
  show ?thesis
    using t [of "[''0'', ''--retries'', ''0'']"]
      t [of "[''0'', ''--retries'', ''0'', ''--max-redirects'', ''0'', ''--concurrent'', ''0'']"]
      t [of "[''0'', ''--max-redirects'', ''0'', ''--concurrent'', ''0'']"]
      t [of "[''0'', ''--concurrent'', ''0'']"]
      t [of "[''0'']"] d5
    by (simp add: z d1 d2 d3 d4 parseArgs_def)
qed

section \<open>Properties of the summary\<close>

lemma foldl_responseTime:
  "foldl (\<lambda>sum r. sum + responseTime r) a results = a + sum_list (map responseTime results)"
  by (induction results arbitrary: a) simp_all

lemma avgTime_round_mean:
  "results \<noteq> [] \<Longrightarrow> avgTime (summarize results) = Some (round (spec_mean results))"
  by (simp add: summarize_def spec_mean_def foldl_responseTime)

lemma round_nearest:
  "x - 1 / 2 < real_of_int (round x) \<and> real_of_int (round x) \<le> x + 1 / 2" for x :: real
  using of_int_round_gt [of x] of_int_round_le [of x] by simp

text \<open>
  Claim C7, as the program has it. For every non-empty result set the summary counts the
  results with a status in 200..299, in 300..399, in 400..499, with a status of 500 or more,
  and with status 0, and the average it prints is the arithmetic mean of the response times
  of all results, the failed ones included, rounded to the nearest integer (halves upwards):
  it differs from the mean by at most one half.
\<close>

theorem summary_buckets_and_rounded_mean:
  assumes "results \<noteq> []"
  shows "total (summarize results) = length results \<and>
         successful (summarize results) = length (filter (\<lambda>r. 200 \<le> status r \<and> status r < 300) results) \<and>
         redirected (summarize results) = length (filter (\<lambda>r. 300 \<le> status r \<and> status r < 400) results) \<and>
         clientErrors (summarize results) = length (filter (\<lambda>r. 400 \<le> status r \<and> status r < 500) results) \<and>
         serverErrors (summarize results) = length (filter (\<lambda>r. 500 \<le> status r) results) \<and>
         failed (summarize results) = length (filter (\<lambda>r. status r = 0) results) \<and>
         avgTime (summarize results) = Some (round (spec_mean results)) \<and>
         spec_mean results - 1 / 2 < real_of_int (round (spec_mean results)) \<and>
         real_of_int (round (spec_mean results)) \<le> spec_mean results + 1 / 2 \<and>
         printSummary results ! 2 =
           ''  Average response time: '' @ show_int (round (spec_mean results)) @ ''ms''"
  using avgTime_round_mean [OF assms] round_nearest [of "spec_mean results"]
  by (simp add: summarize_def printSummary_def Let_def show_avg_def)

text \<open>
  The result set of the specification's example, with statuses 200, 200, 404 and 0 and
  response times 100, 200, 300 and 10000: two successes, one client error, one failure, and
  the average 2650 over all four.
\<close>

theorem summary_buckets_and_rounded_mean_witness:
  "demo_results \<noteq> [] \<and>
   total (summarize demo_results) = 4 \<and> successful (summarize demo_results) = 2 \<and>
   redirected (summarize demo_results) = 0 \<and> clientErrors (summarize demo_results) = 1 \<and>
   serverErrors (summarize demo_results) = 0 \<and> failed (summarize demo_results) = 1 \<and>
   avgTime (summarize demo_results) = Some 2650"
proof -
  have ne: "demo_results \<noteq> []"
    by (simp add: demo_results_def)
  have c: "length demo_results = 4"
    "length (filter (\<lambda>r. 200 \<le> status r \<and> status r < 300) demo_results) = 2"
    "length (filter (\<lambda>r. 300 \<le> status r \<and> status r < 400) demo_results) = 0"
    "length (filter (\<lambda>r. 400 \<le> status r \<and> status r < 500) demo_results) = 1"
    "length (filter (\<lambda>r. 500 \<le> status r) demo_results) = 0"
    "length (filter (\<lambda>r. status r = 0) demo_results) = 1"
    by (simp_all add: demo_results_def demo_result_def)
  have m: "round (spec_mean demo_results) = 2650"
    by (simp add: spec_mean_def demo_results_def demo_result_def round_def)
  show ?thesis
    using summary_buckets_and_rounded_mean [OF ne] ne c m by simp
qed

text \<open>
  Claim C7, as it is written, fails on a result set with the statuses 999 and 200 and the
  response times 1 and 2: the status 999 is counted as a server error although it is not
  a 5xx status, and the average printed is 2 although the mean is 3/2.
\<close>

theorem summary_5xx_exact_mean_counterexample:
  "serverErrors (summarize odd_results) = 1 \<and> spec_serverErrors odd_results = 0 \<and>
   avgTime (summarize odd_results) = Some 2 \<and> spec_mean odd_results = 3 / 2"
  by (simp add: summarize_def spec_serverErrors_def spec_mean_def odd_results_def demo_result_def
      round_def)

section \<open>Properties of the export\<close>

lemma exportResults_table: "exportResults E results ''table'' outputPath = Inl ''Unknown format: table''"
  by (simp add: exportResults_def)

lemma exportResults_succeeds_only:
  "exportResults E results fmt outputPath = Inr effs \<Longrightarrow> fmt = ''json'' \<or> fmt = ''csv''"
  by (auto simp: exportResults_def split: if_splits)

text \<open>
  The end of \<^verbatim>\<open>main\<close>, taken by itself: if \<^verbatim>\<open>runChecks\<close> delivered results, an output file was
  requested and the format is \<^verbatim>\<open>table\<close>, the error thrown by \<^verbatim>\<open>exportResults\<close> would be reported
  and the process would exit with code 1, after the summary unless \<^verbatim>\<open>--quiet\<close> is set.
\<close>

lemma main_after_runChecks_table:
  assumes "opt_output opts = Some outputPath" and "outputPath \<noteq> []" and "format opts = ''table''"
  shows "main_after_runChecks E opts results =
           (if quiet opts then [] else map Stdout (printSummary results)) @
           [Stderr (COLORS_red @ ''Error: Unknown format: table'' @ COLORS_reset), ProcessExit 1]"
  using assms exportResults_table [of E results outputPath]
  by (simp add: main_after_runChecks_def)

text \<open>
  Claim C8. The CSV export wraps the text fields in double quotes and copies them as they
  are. For a result whose error is \<^verbatim>\<open>bad "x", y\<close> the row ends in \<^verbatim>\<open>"bad "x", y"\<close>: the quotes
  inside the field are not doubled. Reading the exported text back with the CSV reader of
  the repository yields the error field \<^verbatim>\<open>bad x, y\<close>, which is not the field that was written.
\<close>

theorem csv_quote_not_escaped:
  "csv_content [quoted_result] =
     csv_header @ [dq] @ ''http://a/'' @ [dq] @ '',0,'' @ [dq] @ ''Unknown'' @ [dq] @ '',5,0,'' @
       [dq] @ ''bad '' @ [dq] @ ''x'' @ [dq] @ '', y'' @ [dq] @ [CHR 0x0A] \<and>
   map parseCSVLine (csv_lines (csv_content [quoted_result])) =
     [[''URL'', ''Status'', ''Status Text'', ''Response Time (ms)'', ''Size (bytes)'', ''Error''],
      [''http://a/'', ''0'', ''Unknown'', ''5'', ''0'', ''bad x, y'']] \<and>
   csv_fields quoted_result =
     [''http://a/'', ''0'', ''Unknown'', ''5'', ''0'', ''bad '' @ [dq] @ ''x'' @ [dq] @ '', y'']"
  by code_simp

text \<open>A comma alone is protected by the quotes around the field.\<close>

lemma csv_comma_round_trips:
  "map parseCSVLine (csv_lines (csv_content [demo_result 0 5 (Some ''connect failed, retry later'')])) =
     [[''URL'', ''Status'', ''Status Text'', ''Response Time (ms)'', ''Size (bytes)'', ''Error''],
      csv_fields (demo_result 0 5 (Some ''connect failed, retry later''))]"
  by code_simp

section \<open>Properties of runChecks\<close>

lemma remove_completed_no_props:
  "\<forall>p \<in> set running. p_props p = [] \<Longrightarrow> i \<le> length running \<Longrightarrow> remove_completed i running = running"
  by (induction i) (simp_all add: get_prop_def)

lemma dispatch_props:
  "\<forall>p \<in> set running. p_props p = [] \<Longrightarrow> dispatch c queue running = (queue1, running1) \<Longrightarrow>
   (\<forall>p \<in> set running1. p_props p = []) \<and> length running \<le> length running1 \<and>
   (queue \<noteq> [] \<longrightarrow> queue1 \<noteq> [] \<or> running1 \<noteq> [])"
proof (induction c queue running rule: dispatch.induct)
  case (1 c running)
  then show ?case by simp
next
  case (2 c u queue running)
  show ?case
  proof (cases "int (length running) < c")
    case True
    with 2 show ?thesis by (fastforce simp: new_promise_def)
  next
    case False
    with 2 show ?thesis by auto
  qed
qed

lemma await_race_props:
  "\<forall>p \<in> set running. p_props p = [] \<Longrightarrow> running \<noteq> [] \<Longrightarrow>
   await_race pick chk results running = (results2, running2) \<Longrightarrow>
   (\<forall>p \<in> set running2. p_props p = []) \<and> length running2 = length running"
  by (auto simp: await_race_def Let_def split: if_splits dest!: set_update_subset_insert [THEN subsetD])

text \<open>
  No promise in \<^verbatim>\<open>running\<close> ever has an \<^verbatim>\<open>isFulfilled\<close> property, so the removal loop removes
  nothing, \<^verbatim>\<open>running\<close> never shrinks, and the condition of the outer loop stays true.
\<close>

lemma runChecks_loop_never_returns:
  "\<forall>p \<in> set running. p_props p = [] \<Longrightarrow> queue \<noteq> [] \<or> running \<noteq> [] \<Longrightarrow>
   runChecks_loop fuel c pick chk results queue running = None"
proof (induction fuel arbitrary: results queue running)
  case 0
  then show ?case by simp
next
  case (Suc fuel)
  obtain queue1 running1 where d: "dispatch c queue running = (queue1, running1)"
    by (cases "dispatch c queue running")
  from dispatch_props [OF Suc.prems(1) d] Suc.prems(2)
  have p1: "\<forall>p \<in> set running1. p_props p = []" and ne1: "queue1 \<noteq> [] \<or> running1 \<noteq> []"
    by auto
  show ?case
  proof (cases "running1 = []")
    case True
    with ne1 have "queue1 \<noteq> []" by simp
    with Suc.IH [of running1 queue1 results] p1 True d Suc.prems(2) show ?thesis
      by auto
  next
    case False
    obtain results2 running2 where a: "await_race pick chk results running1 = (results2, running2)"
      by (cases "await_race pick chk results running1")
    from await_race_props [OF p1 False a]
    have p2: "\<forall>p \<in> set running2. p_props p = []" and l2: "length running2 = length running1"
      by auto
    have r: "remove_completed (length running2) running2 = running2"
      using remove_completed_no_props [OF p2] by simp
    have "running2 \<noteq> []" using l2 False by auto
    with Suc.IH [of running2 queue1 results2] p2
    have "runChecks_loop fuel c pick chk results2 queue1 running2 = None"
      by simp
    with d a r False Suc.prems(2) show ?thesis by auto
  qed
qed

lemma runChecks_nonempty_never_returns:
  "us \<noteq> [] \<Longrightarrow> runChecks fuel pick chk us opts = None"
  by (simp add: runChecks_def runChecks_loop_never_returns)

lemma runChecks_empty: "runChecks (Suc fuel) pick chk [] opts = Some []"
  by (simp add: runChecks_def)

text \<open>
  Claim C1. With the single URL \<^verbatim>\<open>http://a/\<close> and the concurrency limit 1, \<^verbatim>\<open>runChecks\<close> does
  not return, however many iterations it is given, whichever check finishes first and
  whatever the checks deliver: the loop that should remove the completed promises reads a
  property that no promise has.
\<close>

theorem runChecks_never_returns:
  "\<forall>fuel. runChecks fuel pick chk [''http://a/''] (default_options\<lparr>concurrent := 1\<rparr>) = None"
  by (simp add: runChecks_def runChecks_loop_never_returns)

section \<open>Properties of main\<close>

lemma main_waits_for_runChecks:
  assumes "parseArgs E args = Parsed opts" and "\<not> truthy_str (opt_file opts)" and "urls opts \<noteq> []"
  shows "main fuel E pick chk args = None"
  using assms runChecks_nonempty_never_returns [of "urls opts" fuel pick chk opts]
  by (simp add: main_def)

lemma parseArgs_url_output:
  "parseArgs demo_env [''http://a/'', ''--output'', ''out.txt''] =
     Parsed (default_options\<lparr>urls := [''http://a/''], opt_output := Some ''out.txt''\<rparr>)"
  by (simp add: parseArgs_def parseArgs_loop.simps(2) next_arg_def startsWith_def isValidURL_def
      demo_env_def demo_parseURL_def default_options_def)

text \<open>
  Claim C10. The command line \<^verbatim>\<open>http://a/ --output out.txt\<close> requests an output file and leaves
  the format at \<^verbatim>\<open>table\<close>. Called with these settings, \<^verbatim>\<open>exportResults\<close> throws
  \<^verbatim>\<open>Unknown format: table\<close>, but the run never calls it: \<^verbatim>\<open>main\<close> waits for \<^verbatim>\<open>runChecks\<close>, which does
  not return, so the process prints no such error and does not exit, however many iterations
  the loop is given, whichever check finishes first and whatever the checks deliver.
\<close>

theorem main_never_reaches_export:
  "parseArgs demo_env [''http://a/'', ''--output'', ''out.txt''] =
     Parsed (default_options\<lparr>urls := [''http://a/''], opt_output := Some ''out.txt''\<rparr>) \<and>
   format (default_options\<lparr>urls := [''http://a/''], opt_output := Some ''out.txt''\<rparr>) = ''table'' \<and>
   exportResults demo_env results ''table'' ''out.txt'' = Inl ''Unknown format: table'' \<and>
   (\<forall>fuel. main fuel demo_env pick chk [''http://a/'', ''--output'', ''out.txt''] = None)"
proof -
  let ?opts = "default_options\<lparr>urls := [''http://a/''], opt_output := Some ''out.txt''\<rparr>"
  have a: "\<not> truthy_str (opt_file ?opts)" "urls ?opts \<noteq> []" "format ?opts = ''table''"
    by (simp_all add: default_options_def truthy_str_def)
  from main_waits_for_runChecks [OF parseArgs_url_output a(1,2)]
  have "\<forall>fuel. main fuel demo_env pick chk [''http://a/'', ''--output'', ''out.txt''] = None"
    by simp
  with parseArgs_url_output a(3) exportResults_table [of demo_env results "''out.txt''"]
  show ?thesis by simp
qed

text \<open>Without a URL the process does end: it reports that no URL was given and exits with 1.\<close>

lemma main_without_urls:
  "main fuel demo_env pick chk [''--output'', ''out.txt''] =
     Some [Stderr (COLORS_red @ ''Error: No URLs provided'' @ COLORS_reset),
           Stderr ''Use --help for usage information'', ProcessExit 1]"
  by (simp add: main_def parseArgs_def parseArgs_loop.simps(2) next_arg_def default_options_def
      truthy_str_def)

section \<open>Properties of checkURL\<close>

subsection \<open>One call\<close>

lemma fetch_cases:
  "fetch E opts k u = Some oc \<Longrightarrow>
     \<exists>p. parseURL E u = Some p \<and>
         requestError E (u_protocol p = ''https:'') (requestOptions p opts) = None \<and>
         net E k (u_protocol p = ''https:'') (requestOptions p opts) = oc"
  by (auto simp: fetch_def split: option.splits)

lemma fetch_shift: "fetch E opts k u = Some oc \<Longrightarrow> fetch E opts k' u \<noteq> None"
  by (auto simp: fetch_def split: option.splits)

lemma is_failure_cases:
  "is_failure x \<Longrightarrow> (\<exists>msg ms. x = Some (NetError msg ms)) \<or> x = Some Timeout"
  by (cases x rule: is_failure.cases) auto

lemma is_error_cases: "is_error x \<Longrightarrow> \<exists>msg ms. x = Some (NetError msg ms)"
  by (cases x rule: is_error.cases) auto

lemma is_error_failure: "is_error x \<Longrightarrow> is_failure x"
  by (cases x rule: is_error.cases) auto

lemma checkURL_unparseable:
  "parseURL E u = None \<Longrightarrow> checkURL (Suc fuel) E opts u a w = Some (Rejected ''Invalid URL'', w)"
  by (simp add: checkURL.simps(2))

lemma checkURL_refused:
  "parseURL E u = Some p \<Longrightarrow>
   requestError E (u_protocol p = ''https:'') (requestOptions p opts) = Some msg \<Longrightarrow>
   checkURL (Suc fuel) E opts u a w = Some (Rejected msg, w)"
  by (simp add: checkURL.simps(2))

lemma checkURL_retry:
  assumes "is_error (fetch E opts (issued w) u)" and "a < retries opts"
  shows "checkURL (Suc fuel) E opts u a w =
         checkURL fuel E opts u (a + 1)
           (w\<lparr>issued := issued w + 1, log := log w @ [Attempt (issued w) u a, Backoff (1000 * a)]\<rparr>)"
  using is_error_cases [OF assms(1)] assms(2)
  by (auto simp: checkURL.simps(2) Let_def dest!: fetch_cases)

text \<open>An attempt that times out with retries left: two retries, and the first to finish decides.\<close>

lemma checkURL_fork:
  assumes "fetch E opts (issued w) u = Some Timeout" and "a < retries opts"
  shows "checkURL (Suc fuel) E opts u a w =
         (case checkURL fuel E opts u (a + 1)
                 (w\<lparr>issued := issued w + 1,
                    log := log w @ [Attempt (issued w) u a, Backoff (1000 * a), Backoff (1000 * a)]\<rparr>) of
            None \<Rightarrow> None
          | Some (ra, wa) \<Rightarrow>
              (case checkURL fuel E opts u (a + 1) wa of
                 None \<Rightarrow> None
               | Some (rb, wb) \<Rightarrow> Some (first_settled (race E (issued w)) ra rb, wb)))"
  using assms
  by (auto simp: checkURL.simps(2) Let_def dest!: fetch_cases)

lemma checkURL_give_up:
  assumes "is_failure (fetch E opts (issued w) u)" and "\<not> a < retries opts"
  shows "checkURL (Suc fuel) E opts u a w =
         Some (Resolved (failure_result u opts (fetch E opts (issued w) u)),
               w\<lparr>issued := issued w + 1, log := log w @ [Attempt (issued w) u a]\<rparr>)"
  using assms
  by (auto simp: checkURL.simps(2) Let_def fetch_def split: option.splits outcome.splits)

lemma checkURL_response_final:
  assumes "fetch E opts (issued w) u = Some (Response st hdrs b ms)"
    and "\<not> (is_redirect_response opts st hdrs \<and> 1 \<le> maxRedirects opts)"
  shows "checkURL (Suc fuel) E opts u a w =
         Some (Resolved (response_result u st hdrs b ms),
               w\<lparr>issued := issued w + 1, log := log w @ [Attempt (issued w) u a]\<rparr>)"
  using assms
  by (auto simp: checkURL.simps(2) Let_def res_req_redirectCount_def num_or_def dest!: fetch_cases)

lemma checkURL_redirect_call:
  assumes "fetch E opts (issued w) u = Some (Response st hdrs b ms)"
    and "is_redirect_response opts st hdrs" and "1 \<le> maxRedirects opts"
    and "resolveURL E (str_or (map_of hdrs ''location'') []) u = Some u'"
  shows "checkURL (Suc fuel) E opts u a w =
         (case checkURL fuel E opts u' 1
                 (w\<lparr>issued := issued w + 1, log := log w @ [Attempt (issued w) u a]\<rparr>) of
            None \<Rightarrow> None
          | Some (Resolved r', w2) \<Rightarrow>
              Some (Resolved
                     (merge_redirect
                        ((response_result u st hdrs b ms)
                           \<lparr>redirects := [\<lparr>r_from = u, r_to = u', r_status = st\<rparr>]\<rparr>) r'), w2)
          | Some (Rejected msg, w2) \<Rightarrow> Some (Uncaught msg, w2)
          | Some (Uncaught msg, w2) \<Rightarrow> Some (Uncaught msg, w2))"
  using assms
  by (auto simp: checkURL.simps(2) Let_def res_req_redirectCount_def num_or_def dest!: fetch_cases)

lemma checkURL_redirect_unresolved:
  assumes "fetch E opts (issued w) u = Some (Response st hdrs b ms)"
    and "is_redirect_response opts st hdrs" and "1 \<le> maxRedirects opts"
    and "resolveURL E (str_or (map_of hdrs ''location'') []) u = None"
  shows "checkURL (Suc fuel) E opts u a w =
         Some (Uncaught ''Invalid URL'',
               w\<lparr>issued := issued w + 1, log := log w @ [Attempt (issued w) u a]\<rparr>)"
  using assms
  by (auto simp: checkURL.simps(2) Let_def res_req_redirectCount_def num_or_def dest!: fetch_cases)

lemma checkURL_redirect:
  assumes "fetch E opts (issued w) u = Some (Response st hdrs b ms)"
    and "is_redirect_response opts st hdrs" and "1 \<le> maxRedirects opts"
    and "resolveURL E (str_or (map_of hdrs ''location'') []) u = Some u'"
    and "checkURL fuel E opts u' 1 (w\<lparr>issued := issued w + 1, log := log w @ [Attempt (issued w) u a]\<rparr>)
           = Some (Resolved r', w2)"
  shows "checkURL (Suc fuel) E opts u a w =
         Some (Resolved \<lparr> url = u, status = status r', statusText = statusText r',
                 responseTime = ms + responseTime r', bodySize = bodySize r',
                 resHeaders = resHeaders r',
                 redirects = \<lparr>r_from = u, r_to = u', r_status = st\<rparr> # redirects r',
                 error = None \<rparr>, w2)"
  using checkURL_redirect_call [OF assms(1-4), of fuel a] assms(5)
  by (simp add: merge_redirect_def response_result_def)

lemma checkURL_skip_errors:
  assumes "\<forall>j<f. is_error (fetch E opts (issued w + j) u)"
    and "0 < f \<longrightarrow> a + int f \<le> retries opts"
  shows "checkURL (f + fuel) E opts u a w =
         checkURL fuel E opts u (a + int f)
           (w\<lparr>issued := issued w + f, log := log w @ retry_log (issued w) u a f\<rparr>)"
  using assms
proof (induction f arbitrary: a w)
  case 0
  then show ?case by simp
next
  case (Suc f)
  let ?w = "w\<lparr>issued := issued w + 1, log := log w @ [Attempt (issued w) u a, Backoff (1000 * a)]\<rparr>"
  have f0: "is_error (fetch E opts (issued w) u)"
    using Suc.prems(1) by (metis add.right_neutral zero_less_Suc)
  have lt: "a < retries opts"
    using Suc.prems(2) by simp
  have step: "checkURL (Suc f + fuel) E opts u a w = checkURL (f + fuel) E opts u (a + 1) ?w"
    using checkURL_retry [OF f0 lt, of "f + fuel"] by simp
  have "\<forall>j<f. is_error (fetch E opts (issued ?w + j) u)"
    using Suc.prems(1) by (auto simp: less_Suc_eq_0_disj)
  moreover have "0 < f \<longrightarrow> (a + 1) + int f \<le> retries opts"
    using Suc.prems(2) by simp
  ultimately have "checkURL (f + fuel) E opts u (a + 1) ?w =
      checkURL fuel E opts u (a + 1 + int f)
        (?w\<lparr>issued := issued ?w + f, log := log ?w @ retry_log (issued ?w) u (a + 1) f\<rparr>)"
    by (rule Suc.IH)
  with step show ?case by (simp add: add.commute add.left_commute)
qed

text \<open>
  When every attempt ends in a connection error, the attempts are as many as the retry count
  says (one if it is below 1), each failed attempt but the last is followed by one delay, and
  the result is that of the last attempt.
\<close>

lemma checkURL_all_errors:
  assumes "n = nat (max 1 (retries opts))"
    and "\<forall>j<n. is_error (fetch E opts (issued w + j) u)"
  shows "checkURL (n + fuel) E opts u 1 w =
         Some (Resolved (failure_result u opts (fetch E opts (issued w + (n - 1)) u)),
               w\<lparr>issued := issued w + n,
                 log := log w @ retry_log (issued w) u 1 (n - 1) @
                        [Attempt (issued w + (n - 1)) u (int n)]\<rparr>)"
proof -
  have n1: "1 \<le> n" using assms(1) by simp
  let ?f = "n - 1"
  let ?w = "w\<lparr>issued := issued w + ?f, log := log w @ retry_log (issued w) u 1 ?f\<rparr>"
  have a: "\<forall>j<?f. is_error (fetch E opts (issued w + j) u)"
    using assms(2) by simp
  have b: "0 < ?f \<longrightarrow> 1 + int ?f \<le> retries opts"
    using assms(1) by auto
  have s: "checkURL (?f + Suc fuel) E opts u 1 w = checkURL (Suc fuel) E opts u (1 + int ?f) ?w"
    by (rule checkURL_skip_errors [OF a b])
  have "n - 1 < n" using n1 by simp
  with assms(2) have "is_error (fetch E opts (issued w + (n - 1)) u)" by blast
  then have last: "is_failure (fetch E opts (issued ?w) u)"
    by (simp add: is_error_failure)
  have ge: "\<not> 1 + int ?f < retries opts"
    using assms(1) by auto
  have eqn: "?f + Suc fuel = n + fuel" "1 + int ?f = int n"
    using n1 by auto
  show ?thesis
    using s checkURL_give_up [OF last ge, of fuel] eqn by simp
qed

lemma unhandled_not_rejected: "unhandled x \<noteq> Rejected msg"
  by (cases x) simp_all

lemma unhandled_resolved: "unhandled x = Resolved r \<longleftrightarrow> x = Resolved r"
  by (cases x) simp_all

text \<open>Past the two constructors nothing rejects the promise.\<close>

lemma checkURL_not_rejected:
  assumes "fetch E opts k0 u \<noteq> None"
  shows "checkURL fuel E opts u a w \<noteq> Some (Rejected msg, w')"
proof (induction fuel arbitrary: a w)
  case 0
  then show ?case by simp
next
  case (Suc fuel)
  from assms fetch_shift obtain oc where f: "fetch E opts (issued w) u = Some oc"
    by (metis not_None_eq)
  show ?case
  proof (cases oc)
    case (Response st hdrs b ms)
    show ?thesis
    proof (cases "is_redirect_response opts st hdrs \<and> 1 \<le> maxRedirects opts")
      case False
      from checkURL_response_final [OF f [unfolded Response] False, of fuel a]
      show ?thesis by simp
    next
      case True
      show ?thesis
      proof (cases "resolveURL E (str_or (map_of hdrs ''location'') []) u")
        case None
        from checkURL_redirect_unresolved [OF f [unfolded Response] _ _ None, of fuel a] True
        show ?thesis by simp
      next
        case (Some u')
        from checkURL_redirect_call [OF f [unfolded Response] _ _ Some, of fuel a] True
        show ?thesis
          by (auto split: option.splits settled.splits prod.splits)
      qed
    qed
  next
    case (NetError m ms)
    show ?thesis
    proof (cases "a < retries opts")
      case True
      from f NetError have "is_error (fetch E opts (issued w) u)" by simp
      from checkURL_retry [OF this True, of fuel] Suc.IH show ?thesis by simp
    next
      case False
      from f NetError have "is_failure (fetch E opts (issued w) u)" by simp
      from checkURL_give_up [OF this False, of fuel] show ?thesis by simp
    qed
  next
    case Timeout
    show ?thesis
    proof (cases "a < retries opts")
      case True
      from checkURL_fork [OF f [unfolded Timeout] True, of fuel]
      show ?thesis
        by (auto simp: first_settled_def unhandled_not_rejected split: option.splits prod.splits)
    next
      case False
      from f Timeout have "is_failure (fetch E opts (issued w) u)" by simp
      from checkURL_give_up [OF this False, of fuel] show ?thesis by simp
    qed
  qed
qed

lemma checkURL_rejected_iff:
  "checkURL (Suc fuel) E opts u a w = Some (Rejected msg, w') \<longleftrightarrow>
     w' = w \<and>
     (case parseURL E u of
        None \<Rightarrow> msg = ''Invalid URL''
      | Some p \<Rightarrow> requestError E (u_protocol p = ''https:'') (requestOptions p opts) = Some msg)"
proof (cases "parseURL E u")
  case None
  then show ?thesis
    using checkURL_unparseable [OF None, of fuel opts a w] by auto
next
  case (Some p)
  show ?thesis
  proof (cases "requestError E (u_protocol p = ''https:'') (requestOptions p opts)")
    case (Some thrown)
    with \<open>parseURL E u = Some p\<close> checkURL_refused [OF \<open>parseURL E u = Some p\<close> Some, of fuel a w]
    show ?thesis by auto
  next
    case None
    with \<open>parseURL E u = Some p\<close> have "fetch E opts 0 u \<noteq> None"
      by (simp add: fetch_def)
    from checkURL_not_rejected [OF this, of "Suc fuel" a w msg w'] None \<open>parseURL E u = Some p\<close>
    show ?thesis by simp
  qed
qed

lemma checkURL_issued_mono:
  "checkURL fuel E opts u a w = Some (x, w') \<Longrightarrow> issued w \<le> issued w'"
proof (induction fuel arbitrary: u a w x w')
  case 0
  then show ?case by simp
next
  case (Suc fuel)
  show ?case
  proof (cases "fetch E opts (issued w) u")
    case None
    with Suc.prems show ?thesis
      by (auto simp: checkURL.simps(2) fetch_def split: option.splits)
  next
    case (Some oc)
    let ?w1 = "w\<lparr>issued := issued w + 1, log := log w @ [Attempt (issued w) u a]\<rparr>"
    show ?thesis
    proof (cases oc)
      case (Response st hdrs b ms)
      show ?thesis
      proof (cases "is_redirect_response opts st hdrs \<and> 1 \<le> maxRedirects opts")
        case False
        from checkURL_response_final [OF Some [unfolded Response] False, of fuel a] Suc.prems
        show ?thesis by auto
      next
        case True
        show ?thesis
        proof (cases "resolveURL E (str_or (map_of hdrs ''location'') []) u")
          case None
          from checkURL_redirect_unresolved [OF Some [unfolded Response] _ _ None, of fuel a] True
            Suc.prems
          show ?thesis by auto
        next
          case (Some u')
          from checkURL_redirect_call [OF \<open>fetch E opts (issued w) u = Some oc\<close> [unfolded Response] _ _ Some,
              of fuel a] True Suc.prems
          obtain y w2 where "checkURL fuel E opts u' 1 ?w1 = Some (y, w2)" and "w' = w2"
            by (auto split: option.splits settled.splits prod.splits)
          with Suc.IH [of u' 1 ?w1 y w2] show ?thesis by simp
        qed
      qed
    next
      case (NetError m ms)
      show ?thesis
      proof (cases "a < retries opts")
        case True
        from Some NetError have "is_error (fetch E opts (issued w) u)" by simp
        from checkURL_retry [OF this True, of fuel] Suc.prems Suc.IH [of u "a + 1" _ x w']
        show ?thesis by fastforce
      next
        case False
        from Some NetError have "is_failure (fetch E opts (issued w) u)" by simp
        from checkURL_give_up [OF this False, of fuel] Suc.prems show ?thesis by auto
      qed
    next
      case Timeout
      show ?thesis
      proof (cases "a < retries opts")
        case True
        let ?w2 = "w\<lparr>issued := issued w + 1,
                     log := log w @ [Attempt (issued w) u a, Backoff (1000 * a), Backoff (1000 * a)]\<rparr>"
        from checkURL_fork [OF Some [unfolded Timeout] True, of fuel] Suc.prems
        obtain ra wa rb where A: "checkURL fuel E opts u (a + 1) ?w2 = Some (ra, wa)"
          and B: "checkURL fuel E opts u (a + 1) wa = Some (rb, w')"
          by (auto split: option.splits prod.splits)
        from Suc.IH [OF A] Suc.IH [OF B] show ?thesis by simp
      next
        case False
        from Some Timeout have "is_failure (fetch E opts (issued w) u)" by simp
        from checkURL_give_up [OF this False, of fuel] Suc.prems show ?thesis by auto
      qed
    qed
  qed
qed

lemma failure_result_fields:
  "is_failure x \<Longrightarrow>
     url (failure_result u opts x) = u \<and> status (failure_result u opts x) = 0 \<and>
     error (failure_result u opts x) = Some (failure_message x) \<and>
     responseTime (failure_result u opts x) = failure_time opts x \<and>
     redirects (failure_result u opts x) = []"
  by (cases x rule: is_failure.cases) (simp_all add: error_result_def timeout_result_def)

text \<open>
  When every request for the URL fails, with an error or a timeout, the check resolves with
  status 0 and the message of one of the failed requests of the check.
\<close>

lemma checkURL_all_fail_resolves:
  assumes "\<forall>k. issued w \<le> k \<longrightarrow> is_failure (fetch E opts k u)"
    and "d = nat (retries opts - a)"
  shows "\<exists>r w' k. checkURL (Suc d + fuel) E opts u a w = Some (Resolved r, w') \<and>
           url r = u \<and> status r = 0 \<and> issued w \<le> k \<and> k < issued w' \<and>
           error r = Some (failure_message (fetch E opts k u))"
  using assms
proof (induction d arbitrary: a w fuel)
  case 0
  then have ge: "\<not> a < retries opts" by simp
  have fl: "is_failure (fetch E opts (issued w) u)" using "0.prems"(1) by simp
  let ?r = "failure_result u opts (fetch E opts (issued w) u)"
  let ?w' = "w\<lparr>issued := issued w + 1, log := log w @ [Attempt (issued w) u a]\<rparr>"
  have "checkURL (Suc 0 + fuel) E opts u a w = Some (Resolved ?r, ?w')"
    using checkURL_give_up [OF fl ge, of fuel] by simp
  moreover have "url ?r = u \<and> status ?r = 0 \<and>
      error ?r = Some (failure_message (fetch E opts (issued w) u))"
    using failure_result_fields [OF fl, of u opts] by simp
  moreover have "issued w \<le> issued w \<and> issued w < issued ?w'" by simp
  ultimately show ?case by blast
next
  case (Suc d)
  then have lt: "a < retries opts" and d: "d = nat (retries opts - (a + 1))"
    by simp_all
  have fl: "is_failure (fetch E opts (issued w) u)" using Suc.prems(1) by simp
  from is_failure_cases [OF fl] show ?case
  proof
    assume "\<exists>m ms. fetch E opts (issued w) u = Some (NetError m ms)"
    then have e: "is_error (fetch E opts (issued w) u)" by auto
    let ?w1 = "w\<lparr>issued := issued w + 1, log := log w @ [Attempt (issued w) u a, Backoff (1000 * a)]\<rparr>"
    have "\<forall>k. issued ?w1 \<le> k \<longrightarrow> is_failure (fetch E opts k u)"
      using Suc.prems(1) by simp
    from Suc.IH [OF this d, of fuel]
    obtain r w' k where "checkURL (Suc d + fuel) E opts u (a + 1) ?w1 = Some (Resolved r, w')"
      and p: "url r = u" "status r = 0" "issued ?w1 \<le> k" "k < issued w'"
        "error r = Some (failure_message (fetch E opts k u))"
      by blast
    with checkURL_retry [OF e lt, of "Suc d + fuel"]
    have "checkURL (Suc (Suc d) + fuel) E opts u a w = Some (Resolved r, w')" by simp
    moreover from p(3) have "issued w \<le> k" by simp
    ultimately show ?thesis using p by blast
  next
    assume t: "fetch E opts (issued w) u = Some Timeout"
    let ?w2 = "w\<lparr>issued := issued w + 1,
                 log := log w @ [Attempt (issued w) u a, Backoff (1000 * a), Backoff (1000 * a)]\<rparr>"
    have "\<forall>k. issued ?w2 \<le> k \<longrightarrow> is_failure (fetch E opts k u)"
      using Suc.prems(1) by simp
    from Suc.IH [OF this d, of fuel]
    obtain ra wa ka where A: "checkURL (Suc d + fuel) E opts u (a + 1) ?w2 = Some (Resolved ra, wa)"
      and pa: "url ra = u" "status ra = 0" "issued ?w2 \<le> ka" "ka < issued wa"
        "error ra = Some (failure_message (fetch E opts ka u))"
      by blast
    from pa(3,4) have wwa: "issued w \<le> issued wa" by simp
    then have "\<forall>k. issued wa \<le> k \<longrightarrow> is_failure (fetch E opts k u)"
      using Suc.prems(1) by simp
    from Suc.IH [OF this d, of fuel]
    obtain rb wb kb where B: "checkURL (Suc d + fuel) E opts u (a + 1) wa = Some (Resolved rb, wb)"
      and pb: "url rb = u" "status rb = 0" "issued wa \<le> kb" "kb < issued wb"
        "error rb = Some (failure_message (fetch E opts kb u))"
      by blast
    have res: "checkURL (Suc (Suc d) + fuel) E opts u a w =
        Some (Resolved (if race E (issued w) then ra else rb), wb)"
      using checkURL_fork [OF t lt, of "Suc d + fuel"] A B
      by (simp add: first_settled_def)
    show ?thesis
    proof (cases "race E (issued w)")
      case True
      from pa(3,4) pb(3,4) have k: "issued w \<le> ka" "ka < issued wb" by simp_all
      from res True have "checkURL (Suc (Suc d) + fuel) E opts u a w = Some (Resolved ra, wb)"
        by simp
      with k pa(1,2,5) show ?thesis by blast
    next
      case False
      from wwa pb(3) have k: "issued w \<le> kb" by simp
      from res False have "checkURL (Suc (Suc d) + fuel) E opts u a w = Some (Resolved rb, wb)"
        by simp
      with k pb(1,2,4,5) show ?thesis by blast
    qed
  qed
qed

text \<open>A redirect entry in the result goes back to a redirect response to a request of the check.\<close>

lemma checkURL_redirects_observed:
  "checkURL fuel E opts u a w = Some (Resolved r, w') \<Longrightarrow> redirects r \<noteq> [] \<Longrightarrow>
   followRedirects opts \<and>
   (\<exists>k st hdrs b ms. issued w \<le> k \<and> k < issued w' \<and>
       fetch E opts k u = Some (Response st hdrs b ms) \<and>
       300 \<le> st \<and> st < 400 \<and> truthy_str (map_of hdrs ''location''))"
proof (induction fuel arbitrary: a w w')
  case 0
  then show ?case by simp
next
  case (Suc fuel)
  from Suc.prems(1) obtain oc where f: "fetch E opts (issued w) u = Some oc"
    by (auto simp: checkURL.simps(2) fetch_def split: option.splits)
  let ?w1 = "w\<lparr>issued := issued w + 1, log := log w @ [Attempt (issued w) u a]\<rparr>"
  show ?case
  proof (cases oc)
    case (Response st hdrs b ms)
    show ?thesis
    proof (cases "is_redirect_response opts st hdrs \<and> 1 \<le> maxRedirects opts")
      case True
      then have t: "followRedirects opts" "300 \<le> st" "st < 400" "truthy_str (map_of hdrs ''location'')"
        by (auto simp: is_redirect_response_def)
      from Suc.prems(1) obtain u' where u': "resolveURL E (str_or (map_of hdrs ''location'') []) u = Some u'"
        using checkURL_redirect_unresolved [OF f [unfolded Response] _ _, of fuel a] True
        by (cases "resolveURL E (str_or (map_of hdrs ''location'') []) u") auto
      from checkURL_redirect_call [OF f [unfolded Response] _ _ u', of fuel a] True Suc.prems(1)
      obtain y w2 where "checkURL fuel E opts u' 1 ?w1 = Some (y, w2)" and "w' = w2"
        by (auto split: option.splits settled.splits prod.splits)
      with checkURL_issued_mono [of fuel E opts u' 1 ?w1 y w2] have "issued w < issued w'"
        by simp
      with f Response t show ?thesis by blast
    next
      case False
      from Suc.prems checkURL_response_final [OF f [unfolded Response] False, of fuel a]
      show ?thesis by (auto simp: response_result_def)
    qed
  next
    case (NetError m ms)
    then have e: "is_error (fetch E opts (issued w) u)" using f by simp
    show ?thesis
    proof (cases "a < retries opts")
      case True
      from Suc.prems(1) checkURL_retry [OF e True, of fuel]
      have "checkURL fuel E opts u (a + 1)
           (w\<lparr>issued := issued w + 1, log := log w @ [Attempt (issued w) u a, Backoff (1000 * a)]\<rparr>)
            = Some (Resolved r, w')" by simp
      from Suc.IH [OF this Suc.prems(2)]
      obtain k st hdrs b ms where fo: "followRedirects opts" and "Suc (issued w) \<le> k"
        and q: "k < issued w'" "fetch E opts k u = Some (Response st hdrs b ms)" "300 \<le> st" "st < 400"
          "truthy_str (map_of hdrs ''location'')"
        by auto
      then have "issued w \<le> k" by simp
      with fo q show ?thesis by blast
    next
      case False
      from Suc.prems checkURL_give_up [OF is_error_failure [OF e] False, of fuel] f NetError
      show ?thesis by (auto simp: error_result_def)
    qed
  next
    case Timeout
    show ?thesis
    proof (cases "a < retries opts")
      case True
      let ?w2 = "w\<lparr>issued := issued w + 1,
                   log := log w @ [Attempt (issued w) u a, Backoff (1000 * a), Backoff (1000 * a)]\<rparr>"
      from checkURL_fork [OF f [unfolded Timeout] True, of fuel] Suc.prems(1)
      obtain ra wa rb where A: "checkURL fuel E opts u (a + 1) ?w2 = Some (ra, wa)"
        and B: "checkURL fuel E opts u (a + 1) wa = Some (rb, w')"
        and sel: "first_settled (race E (issued w)) ra rb = Resolved r"
        by (auto split: option.splits prod.splits)
      from checkURL_issued_mono [OF A] checkURL_issued_mono [OF B]
      have m: "issued w < issued wa" "issued wa \<le> issued w'" by simp_all
      from sel have "ra = Resolved r \<or> rb = Resolved r"
        by (auto simp: first_settled_def unhandled_resolved split: if_splits)
      then show ?thesis
      proof
        assume "ra = Resolved r"
        with A have "checkURL fuel E opts u (a + 1) ?w2 = Some (Resolved r, wa)" by simp
        from Suc.IH [OF this Suc.prems(2)]
        obtain k st hdrs b ms where fo: "followRedirects opts" and "Suc (issued w) \<le> k" "k < issued wa"
          and q: "fetch E opts k u = Some (Response st hdrs b ms)" "300 \<le> st" "st < 400"
            "truthy_str (map_of hdrs ''location'')"
          by auto
        with m have "issued w \<le> k" "k < issued w'" by simp_all
        with fo q show ?thesis by blast
      next
        assume "rb = Resolved r"
        with B have "checkURL fuel E opts u (a + 1) wa = Some (Resolved r, w')" by simp
        from Suc.IH [OF this Suc.prems(2)]
        obtain k st hdrs b ms where fo: "followRedirects opts" and "issued wa \<le> k"
          and q: "k < issued w'" "fetch E opts k u = Some (Response st hdrs b ms)" "300 \<le> st" "st < 400"
            "truthy_str (map_of hdrs ''location'')"
          by auto
        with m have "issued w \<le> k" by simp
        with fo q show ?thesis by blast
      qed
    next
      case False
      from f Timeout have "is_failure (fetch E opts (issued w) u)" by simp
      from Suc.prems checkURL_give_up [OF this False, of fuel] f Timeout
      show ?thesis by (auto simp: timeout_result_def)
    qed
  qed
qed

lemma checkURL_hop:
  assumes "hop_ok E opts w h" and "1 \<le> maxRedirects opts"
    and "checkURL fuel E opts (h_to h) 1 (hop_world w h) = Some (Resolved r', w2)"
  shows "checkURL (h_failures h + 1 + fuel) E opts (h_from h) 1 w =
         Some (Resolved \<lparr> url = h_from h, status = status r', statusText = statusText r',
                 responseTime = h_elapsed h + responseTime r', bodySize = bodySize r',
                 resHeaders = resHeaders r', redirects = hop_entry h # redirects r',
                 error = None \<rparr>, w2)"
proof -
  let ?f = "h_failures h"
  let ?u = "h_from h"
  let ?w = "w\<lparr>issued := issued w + ?f, log := log w @ retry_log (issued w) ?u 1 ?f\<rparr>"
  from assms(1) have fl: "\<forall>j<?f. is_error (fetch E opts (issued w + j) ?u)"
    and lt: "int ?f < retries opts"
    by (auto simp: hop_ok_def list_all_iff)
  from assms(1) obtain hdrs b where
    fr: "fetch E opts (issued w + ?f) ?u = Some (Response (h_status h) hdrs b (h_elapsed h))"
    and rd: "is_redirect_response opts (h_status h) hdrs"
    and rs: "resolveURL E (str_or (map_of hdrs ''location'') []) ?u = Some (h_to h)"
    by (auto simp: hop_ok_def split: option.splits outcome.splits)
  have b: "0 < ?f \<longrightarrow> 1 + int ?f \<le> retries opts" using lt by simp
  have s: "checkURL (?f + Suc fuel) E opts ?u 1 w = checkURL (Suc fuel) E opts ?u (1 + int ?f) ?w"
    by (rule checkURL_skip_errors [OF fl b])
  have fr': "fetch E opts (issued ?w) ?u = Some (Response (h_status h) hdrs b (h_elapsed h))"
    using fr by simp
  have hw: "?w\<lparr>issued := issued ?w + 1, log := log ?w @ [Attempt (issued ?w) ?u (1 + int ?f)]\<rparr>
            = hop_world w h"
    by (simp add: hop_world_def)
  have "checkURL (Suc fuel) E opts ?u (1 + int ?f) ?w =
         Some (Resolved \<lparr> url = ?u, status = status r', statusText = statusText r',
                 responseTime = h_elapsed h + responseTime r', bodySize = bodySize r',
                 resHeaders = resHeaders r',
                 redirects = \<lparr>r_from = ?u, r_to = h_to h, r_status = h_status h\<rparr> # redirects r',
                 error = None \<rparr>, w2)"
    by (rule checkURL_redirect [OF fr' rd assms(2) rs]) (simp only: hw assms(3))
  with s show ?thesis by (simp add: hop_entry_def)
qed

lemma chain_end_Cons: "chain_end u (h # hs) = chain_end (h_to h) hs"
  by (simp add: chain_end_def)

lemma checkURL_chain:
  assumes "chain_from E opts w u hs" and "hs \<noteq> []" and "1 \<le> maxRedirects opts"
    and "checkURL fuel E opts (chain_end u hs) 1 (chain_world w hs) = Some (Resolved rf, w')"
  shows "checkURL (chain_fuel hs + fuel) E opts u 1 w =
         Some (Resolved \<lparr> url = u, status = status rf, statusText = statusText rf,
                 responseTime = sum_list (map h_elapsed hs) + responseTime rf,
                 bodySize = bodySize rf, resHeaders = resHeaders rf,
                 redirects = map hop_entry hs @ redirects rf, error = None \<rparr>, w')"
  using assms
proof (induction hs arbitrary: u w)
  case Nil
  then show ?case by simp
next
  case (Cons h hs)
  from Cons.prems(1) have hu: "h_from h = u" and ok: "hop_ok E opts w h"
    and ch: "chain_from E opts (hop_world w h) (h_to h) hs"
    by simp_all
  have fin: "checkURL fuel E opts (chain_end (h_to h) hs) 1 (chain_world (hop_world w h) hs)
      = Some (Resolved rf, w')"
    using Cons.prems(4) by (simp add: chain_end_Cons)
  show ?case
  proof (cases "hs = []")
    case True
    with fin have "checkURL fuel E opts (h_to h) 1 (hop_world w h) = Some (Resolved rf, w')"
      by (simp add: chain_end_def)
    from checkURL_hop [OF ok Cons.prems(3) this] hu True show ?thesis
      by (simp add: chain_fuel_def)
  next
    case False
    from Cons.IH [OF ch False Cons.prems(3) fin]
    have "checkURL (chain_fuel hs + fuel) E opts (h_to h) 1 (hop_world w h) =
         Some (Resolved \<lparr> url = h_to h, status = status rf, statusText = statusText rf,
                 responseTime = sum_list (map h_elapsed hs) + responseTime rf,
                 bodySize = bodySize rf, resHeaders = resHeaders rf,
                 redirects = map hop_entry hs @ redirects rf, error = None \<rparr>, w')" .
    from checkURL_hop [OF ok Cons.prems(3) this] hu show ?thesis
      by (simp add: chain_fuel_def add.assoc)
  qed
qed


subsection \<open>Retries\<close>

lemma count_attempts_retry_log: "count_attempts (retry_log k u a f @ evs) = f + count_attempts evs"
  by (induction f arbitrary: k a) (simp_all add: count_attempts_def)

lemma retry_log_nth:
  "i < f \<Longrightarrow> retry_log k u a f ! (2 * i) = Attempt (k + i) u (a + int i) \<and>
              retry_log k u a f ! (2 * i + 1) = Backoff (1000 * (a + int i))"
proof (induction f arbitrary: k a i)
  case 0
  then show ?case by simp
next
  case (Suc f)
  show ?case
  proof (cases i)
    case 0
    then show ?thesis by simp
  next
    case (Suc i')
    with Suc.prems have "i' < f" by simp
    from Suc.IH [OF this, of "Suc k" "a + 1"] Suc show ?thesis
      by (simp add: add.assoc add.commute add.left_commute)
  qed
qed

lemma demo_accepts:
  "headers opts = [] \<Longrightarrow> opt_method opts = ''GET'' \<Longrightarrow> 0 \<le> timeout opts \<Longrightarrow>
   demo_requestError secure (requestOptions p opts) = None"
  by (simp add: demo_requestError_def requestOptions_def)

lemma fetch_down:
  "headers opts = [] \<Longrightarrow> opt_method opts = ''GET'' \<Longrightarrow> 0 \<le> timeout opts \<Longrightarrow>
   fetch demo_env opts k ''http://down/'' =
     Some (if k = 0 then NetError ''getaddrinfo ENOTFOUND down'' 3
           else if k = 1 then Timeout else NetError ''connect ECONNREFUSED'' 7)"
  by (simp add: fetch_def demo_env_def demo_parseURL_def demo_accepts)
     (simp add: demo_net_def requestOptions_def)

text \<open>
  With connection errors alone the attempts are counted as they should be: \<open>n\<close> attempts for
  the retry count \<open>n \<ge> 1\<close>, the failed attempt number \<open>i\<close> followed by one delay of \<open>1000 * i\<close>
  milliseconds, and the result of the last attempt.
\<close>

lemma checkURL_connection_errors_exact:
  assumes "1 \<le> n" and "retries opts = int n"
    and "\<forall>j<n. is_error (fetch E opts (issued w + j) u)"
  shows "let final = fetch E opts (issued w + (n - 1)) u;
             r = failure_result u opts final;
             evs = retry_log (issued w) u 1 (n - 1) @ [Attempt (issued w + (n - 1)) u (int n)]
         in checkURL (n + fuel) E opts u 1 w =
              Some (Resolved r, w\<lparr>issued := issued w + n, log := log w @ evs\<rparr>) \<and>
            count_attempts evs = n \<and>
            (\<forall>i<n - 1. evs ! (2 * i) = Attempt (issued w + i) u (1 + int i) \<and>
                        evs ! (2 * i + 1) = Backoff (1000 * (1 + int i))) \<and>
            url r = u \<and> status r = 0 \<and> error r = Some (failure_message final) \<and>
            responseTime r = failure_time opts final"
proof -
  have n: "n = nat (max 1 (retries opts))"
    using assms(1,2) by simp
  have "n - 1 < n" using assms(1) by simp
  with assms(3) have fin: "is_failure (fetch E opts (issued w + (n - 1)) u)"
    by (blast intro: is_error_failure)
  have cnt: "count_attempts (retry_log (issued w) u 1 (n - 1) @ [Attempt (issued w + (n - 1)) u (int n)]) = n"
    using assms(1) by (simp add: count_attempts_retry_log) (simp add: count_attempts_def)
  have nth: "\<forall>i<n - 1.
      (retry_log (issued w) u 1 (n - 1) @ [Attempt (issued w + (n - 1)) u (int n)]) ! (2 * i)
        = Attempt (issued w + i) u (1 + int i) \<and>
      (retry_log (issued w) u 1 (n - 1) @ [Attempt (issued w + (n - 1)) u (int n)]) ! (2 * i + 1)
        = Backoff (1000 * (1 + int i))"
  proof (intro allI impI)
    fix i assume i: "i < n - 1"
    have len: "length (retry_log k u a f) = 2 * f" for k a f
      by (induction f arbitrary: k a) simp_all
    from i have "2 * i < length (retry_log (issued w) u 1 (n - 1))"
      "2 * i + 1 < length (retry_log (issued w) u 1 (n - 1))"
      by (simp_all add: len)
    then show "(retry_log (issued w) u 1 (n - 1) @ [Attempt (issued w + (n - 1)) u (int n)]) ! (2 * i)
        = Attempt (issued w + i) u (1 + int i) \<and>
      (retry_log (issued w) u 1 (n - 1) @ [Attempt (issued w + (n - 1)) u (int n)]) ! (2 * i + 1)
        = Backoff (1000 * (1 + int i))"
      using retry_log_nth [OF i, of "issued w" u 1] by (simp add: nth_append)
  qed
  show ?thesis
    unfolding Let_def
    using checkURL_all_errors [OF n assms(3), of fuel] cnt nth failure_result_fields [OF fin, of u opts]
    by simp
qed

text \<open>
  Claim C4. The retry count is 3 and the requests for the host \<open>down\<close> end in a connection
  error, a timeout and then connection errors. The second attempt, which times out, is
  followed by two delays of 2000 milliseconds and by two third attempts: four requests and
  three delays in all, where the claim has three attempts and two delays. The result is
  that of a third attempt: status 0, its message and its 7 milliseconds.
\<close>

theorem timed_out_attempt_retried_twice:
  "checkURL 3 demo_env (default_options\<lparr>retries := 3\<rparr>) ''http://down/'' 1 world0 =
     Some (Resolved (error_result ''http://down/'' ''connect ECONNREFUSED'' 7),
           \<lparr> issued = 4,
             log = [Attempt 0 ''http://down/'' 1, Backoff 1000,
                    Attempt 1 ''http://down/'' 2, Backoff 2000, Backoff 2000,
                    Attempt 2 ''http://down/'' 3, Attempt 3 ''http://down/'' 3] \<rparr>) \<and>
   count_attempts [Attempt 0 ''http://down/'' 1, Backoff 1000,
                   Attempt 1 ''http://down/'' 2, Backoff 2000, Backoff 2000,
                   Attempt 2 ''http://down/'' 3, Attempt 3 ''http://down/'' 3] = 4"
  by code_simp

subsection \<open>Failures\<close>

text \<open>
  Claim C3, as the program has it. The promise of \<^verbatim>\<open>checkURL\<close> is rejected, so that the caller
  sees an exception, exactly when \<^verbatim>\<open>new URL(url)\<close> throws or \<^verbatim>\<open>protocol.request\<close> throws at once
  (a method that is not a token, an invalid header, a negative timeout); no request has been
  sent then. In every other case the promise is never rejected, and when every request sent
  for the URL ends in a connection error or a timeout, the promise resolves, given as many
  units of fuel as there are attempts in a row, with a result for that URL that has status 0
  and the message of one of the failed requests of the check as its error.
\<close>

theorem checkURL_rejects_iff_constructor_throws:
  "(checkURL (Suc fuel) E opts u a w = Some (Rejected msg, w') \<longleftrightarrow>
      w' = w \<and>
      (case parseURL E u of
         None \<Rightarrow> msg = ''Invalid URL''
       | Some p \<Rightarrow> requestError E (u_protocol p = ''https:'') (requestOptions p opts) = Some msg)) \<and>
   ((\<forall>k. issued w \<le> k \<longrightarrow> is_failure (fetch E opts k u)) \<longrightarrow>
      (\<exists>r w1 k. checkURL (nat (max 1 (retries opts)) + fuel) E opts u 1 w = Some (Resolved r, w1) \<and>
          url r = u \<and> status r = 0 \<and> issued w \<le> k \<and> k < issued w1 \<and>
          error r = Some (failure_message (fetch E opts k u))))"
proof -
  have "Suc (nat (retries opts - 1)) = nat (max 1 (retries opts))"
    by simp
  with checkURL_all_fail_resolves [of w E opts u "nat (retries opts - 1)" 1 fuel]
  have "(\<forall>k. issued w \<le> k \<longrightarrow> is_failure (fetch E opts k u)) \<longrightarrow>
      (\<exists>r w1 k. checkURL (nat (max 1 (retries opts)) + fuel) E opts u 1 w = Some (Resolved r, w1) \<and>
          url r = u \<and> status r = 0 \<and> issued w \<le> k \<and> k < issued w1 \<and>
          error r = Some (failure_message (fetch E opts k u)))"
    by simp
  with checkURL_rejected_iff [of fuel E opts u a w msg w'] show ?thesis
    by blast
qed

lemma demo_run_down2:
  "checkURL 2 demo_env (default_options\<lparr>retries := 2\<rparr>) ''http://down/'' 1 world0 =
     Some (Resolved (timeout_result ''http://down/'' (default_options\<lparr>retries := 2\<rparr>)),
           \<lparr> issued = 2,
             log = [Attempt 0 ''http://down/'' 1, Backoff 1000, Attempt 1 ''http://down/'' 2] \<rparr>)"
  by code_simp

text \<open>
  The string \<^verbatim>\<open>not a url\<close> and the timeout -5 are rejected; two failing attempts at the host
  \<open>down\<close>, an error and a timeout, resolve with the timeout result.
\<close>

theorem checkURL_rejects_iff_constructor_throws_witness:
  "parseURL demo_env ''not a url'' = None \<and>
   checkURL 1 demo_env default_options ''not a url'' 1 world0 = Some (Rejected ''Invalid URL'', world0) \<and>
   checkURL 1 demo_env (default_options\<lparr>timeout := - 5\<rparr>) ''http://a/'' 1 world0 =
     Some (Rejected ''The value of timeout is out of range'', world0) \<and>
   is_failure (fetch demo_env (default_options\<lparr>retries := 2\<rparr>) 0 ''http://down/'') \<and>
   is_failure (fetch demo_env (default_options\<lparr>retries := 2\<rparr>) 1 ''http://down/'') \<and>
   is_failure (fetch demo_env (default_options\<lparr>retries := 2\<rparr>) 2 ''http://down/'') \<and>
   checkURL 2 demo_env (default_options\<lparr>retries := 2\<rparr>) ''http://down/'' 1 world0 =
     Some (Resolved (timeout_result ''http://down/'' (default_options\<lparr>retries := 2\<rparr>)),
           \<lparr> issued = 2,
             log = [Attempt 0 ''http://down/'' 1, Backoff 1000, Attempt 1 ''http://down/'' 2] \<rparr>) \<and>
   status (timeout_result ''http://down/'' (default_options\<lparr>retries := 2\<rparr>)) = 0 \<and>
   error (timeout_result ''http://down/'' (default_options\<lparr>retries := 2\<rparr>)) = Some ''Request timeout''"
proof -
  let ?o2 = "default_options\<lparr>retries := 2\<rparr>"
  have p: "parseURL demo_env ''not a url'' = None"
    by (simp add: demo_env_def demo_parseURL_def)
  have pa: "parseURL demo_env ''http://a/'' =
      Some \<lparr> u_protocol = ''http:'', u_hostname = ''a'', u_port = [], u_pathname = ''/'', u_search = [] \<rparr>"
    by (simp add: demo_env_def demo_parseURL_def)
  have ra: "requestError demo_env False (requestOptions
      \<lparr> u_protocol = ''http:'', u_hostname = ''a'', u_port = [], u_pathname = ''/'', u_search = [] \<rparr>
      (default_options\<lparr>timeout := - 5\<rparr>)) = Some ''The value of timeout is out of range''"
    by (simp add: demo_env_def demo_requestError_def requestOptions_def)
  have o2: "headers ?o2 = []" "opt_method ?o2 = ''GET''" "0 \<le> timeout ?o2"
    by (simp_all add: default_options_def)
  have h: "\<forall>k. issued world0 \<le> k \<longrightarrow> is_failure (fetch demo_env ?o2 k ''http://down/'')"
    by (simp add: fetch_down [OF o2])
  have f: "is_failure (fetch demo_env ?o2 0 ''http://down/'')"
    "is_failure (fetch demo_env ?o2 1 ''http://down/'')"
    "is_failure (fetch demo_env ?o2 2 ''http://down/'')"
    by (simp_all add: fetch_down [OF o2])
  note t1 = checkURL_rejects_iff_constructor_throws [where E = demo_env and u = "''not a url''"
      and fuel = 0 and opts = default_options and a = 1 and w = world0
      and msg = "''Invalid URL''" and w' = world0, THEN conjunct1]
  note t2 = checkURL_rejects_iff_constructor_throws [where E = demo_env and u = "''http://a/''"
      and fuel = 0 and opts = "default_options\<lparr>timeout := - 5\<rparr>" and a = 1 and w = world0
      and msg = "''The value of timeout is out of range''" and w' = world0, THEN conjunct1]
  note t3 = checkURL_rejects_iff_constructor_throws [where E = demo_env and u = "''http://down/''"
      and fuel = 0 and opts = ?o2 and a = 1 and w = world0 and msg = "[]" and w' = world0,
      THEN conjunct2, rule_format, OF h [rule_format]]
  have a1: "checkURL 1 demo_env default_options ''not a url'' 1 world0 =
      Some (Rejected ''Invalid URL'', world0)"
    using t1 p by simp
  have a2: "checkURL 1 demo_env (default_options\<lparr>timeout := - 5\<rparr>) ''http://a/'' 1 world0 =
     Some (Rejected ''The value of timeout is out of range'', world0)"
    using t2 pa ra by simp
  from t3 obtain r w1 where "checkURL 2 demo_env ?o2 ''http://down/'' 1 world0 = Some (Resolved r, w1)"
    and s: "status r = 0"
    by (auto simp: default_options_def)
  with demo_run_down2 have r: "r = timeout_result ''http://down/'' ?o2" by simp
  have d: "error (timeout_result ''http://down/'' ?o2) = Some ''Request timeout''"
    by (simp add: timeout_result_def)
  show ?thesis
    using p a1 a2 f demo_run_down2 s r d by simp
qed

text \<open>
  Claim C3, as it is written, fails on the string \<^verbatim>\<open>not a url\<close>: the call does not resolve
  with a result, its promise is rejected.
\<close>

theorem checkURL_unparseable_counterexample:
  "checkURL 1 demo_env default_options ''not a url'' 1 world0 = Some (Rejected ''Invalid URL'', world0)"
  by (simp add: checkURL.simps(2) demo_env_def demo_parseURL_def)

subsection \<open>Redirects\<close>

text \<open>
  Claim C2. With the redirect ceiling 1 and the chain from \<open>a\<close> over \<open>b\<close> to \<open>c\<close>, which is two
  hops long, \<^verbatim>\<open>checkURL\<close> follows both hops and reports the status 200 of \<open>c\<close> with two redirect
  entries. The count that is compared with the ceiling is 1 at every hop, since it is read
  from a property that is never set and every hop is a fresh call.
\<close>

theorem maxRedirects_not_enforced:
  "checkURL 3 demo_env (default_options\<lparr>maxRedirects := 1\<rparr>) ''http://a/'' 1 world0 =
     Some (Resolved
            \<lparr> url = ''http://a/'', status = 200, statusText = ''OK'', responseTime = 60,
              bodySize = 5, resHeaders = [(''content-type'', ''text/plain'')],
              redirects = [\<lparr>r_from = ''http://a/'', r_to = ''http://b/'', r_status = 302\<rparr>,
                           \<lparr>r_from = ''http://b/'', r_to = ''http://c/'', r_status = 302\<rparr>],
              error = None \<rparr>,
           \<lparr> issued = 3,
             log = [Attempt 0 ''http://a/'' 1, Attempt 1 ''http://b/'' 1, Attempt 2 ''http://c/'' 1] \<rparr>)"
  by code_simp

text \<open>Only the ceiling 0 stops the chain: the 302 of \<open>a\<close> is then the result.\<close>

lemma maxRedirects_zero_stops:
  "checkURL 3 demo_env (default_options\<lparr>maxRedirects := 0\<rparr>) ''http://a/'' 1 world0 =
     Some (Resolved (response_result ''http://a/'' 302 [(''location'', ''http://b/'')] [] 10),
           \<lparr> issued = 1, log = [Attempt 0 ''http://a/'' 1] \<rparr>)"
  by code_simp

text \<open>
  Claim C5. Let the check of \<open>u\<close> follow the hops \<open>hs\<close>, at least one (before the response of
  a hop, attempts that end in a connection error may have been retried), and let \<open>rf\<close> be the
  result of the check of the last target. Then the result of the check of \<open>u\<close> has the URL \<open>u\<close>,
  the status, status text, size and headers of \<open>rf\<close>, the sum of the elapsed times of the hops
  and of the response time of \<open>rf\<close> as its response time, and one redirect entry per hop, in
  the order of the hops, before the entries of \<open>rf\<close>. In particular, when the last target
  answers with a response that is not followed, these are the status, status text, body
  length and headers of that response, and the response time is the sum over all requests
  of the chain.
\<close>

theorem checkURL_redirect_chain:
  assumes "chain_from E opts w u hs" and "hs \<noteq> []" and "1 \<le> maxRedirects opts"
  shows "(\<forall>fuel rf w'.
            checkURL fuel E opts (chain_end u hs) 1 (chain_world w hs) = Some (Resolved rf, w') \<longrightarrow>
            checkURL (chain_fuel hs + fuel) E opts u 1 w =
              Some (Resolved \<lparr> url = u, status = status rf, statusText = statusText rf,
                      responseTime = sum_list (map h_elapsed hs) + responseTime rf,
                      bodySize = bodySize rf, resHeaders = resHeaders rf,
                      redirects = map hop_entry hs @ redirects rf, error = None \<rparr>, w')) \<and>
         (\<forall>fuel st hdrs b ms.
            fetch E opts (issued (chain_world w hs)) (chain_end u hs) = Some (Response st hdrs b ms) \<and>
            \<not> is_redirect_response opts st hdrs \<longrightarrow>
            checkURL (chain_fuel hs + Suc fuel) E opts u 1 w =
              Some (Resolved \<lparr> url = u, status = st, statusText = statusTextOf st,
                      responseTime = sum_list (map h_elapsed hs) + ms,
                      bodySize = int (length b), resHeaders = hdrs,
                      redirects = map hop_entry hs, error = None \<rparr>,
                    (chain_world w hs)\<lparr>issued := issued (chain_world w hs) + 1,
                       log := log (chain_world w hs) @
                              [Attempt (issued (chain_world w hs)) (chain_end u hs) 1]\<rparr>))"
proof (intro conjI allI impI)
  fix fuel rf w'
  assume "checkURL fuel E opts (chain_end u hs) 1 (chain_world w hs) = Some (Resolved rf, w')"
  from checkURL_chain [OF assms this]
  show "checkURL (chain_fuel hs + fuel) E opts u 1 w =
              Some (Resolved \<lparr> url = u, status = status rf, statusText = statusText rf,
                      responseTime = sum_list (map h_elapsed hs) + responseTime rf,
                      bodySize = bodySize rf, resHeaders = resHeaders rf,
                      redirects = map hop_entry hs @ redirects rf, error = None \<rparr>, w')" .
next
  fix fuel st hdrs b ms
  let ?w = "chain_world w hs"
  assume a: "fetch E opts (issued ?w) (chain_end u hs) = Some (Response st hdrs b ms) \<and>
            \<not> is_redirect_response opts st hdrs"
  then have "checkURL (Suc fuel) E opts (chain_end u hs) 1 ?w =
         Some (Resolved (response_result (chain_end u hs) st hdrs b ms),
               ?w\<lparr>issued := issued ?w + 1, log := log ?w @ [Attempt (issued ?w) (chain_end u hs) 1]\<rparr>)"
    by (intro checkURL_response_final) simp_all
  from checkURL_chain [OF assms this]
  show "checkURL (chain_fuel hs + Suc fuel) E opts u 1 w =
              Some (Resolved \<lparr> url = u, status = st, statusText = statusTextOf st,
                      responseTime = sum_list (map h_elapsed hs) + ms,
                      bodySize = int (length b), resHeaders = hdrs,
                      redirects = map hop_entry hs, error = None \<rparr>,
                    ?w\<lparr>issued := issued ?w + 1,
                       log := log ?w @ [Attempt (issued ?w) (chain_end u hs) 1]\<rparr>)"
    by (simp add: response_result_def)
qed

lemma fetch_abc:
  assumes "headers opts = []" and "opt_method opts = ''GET''" and "0 \<le> timeout opts"
  shows "fetch demo_env opts k ''http://a/'' = Some (Response 302 [(''location'', ''http://b/'')] [] 10)"
    and "fetch demo_env opts k ''http://b/'' = Some (Response 302 [(''location'', ''http://c/'')] [] 20)"
    and "fetch demo_env opts k ''http://c/'' =
           Some (Response 200 [(''content-type'', ''text/plain'')] ''hello'' 30)"
  by (simp_all add: fetch_def demo_env_def demo_parseURL_def demo_accepts [OF assms])
     (simp_all add: demo_net_def requestOptions_def)

lemma default_options_accepted:
  "headers default_options = []" "opt_method default_options = ''GET''" "0 \<le> timeout default_options"
  "headers (default_options\<lparr>followRedirects := x\<rparr>) = []"
  "opt_method (default_options\<lparr>followRedirects := x\<rparr>) = ''GET''"
  "0 \<le> timeout (default_options\<lparr>followRedirects := x\<rparr>)"
  by (simp_all add: default_options_def)

lemmas fetch_abc_default = fetch_abc [OF default_options_accepted(1-3)]

lemma demo_chain: "chain_from demo_env default_options world0 ''http://a/'' demo_hops"
  by (simp add: demo_hops_def hop_ok_def fetch_abc_default is_redirect_response_def truthy_str_def
      str_or_def hop_world_def world0_def)
     (simp add: default_options_def demo_env_def demo_parseURL_def)

lemma demo_chain_world:
  "chain_world world0 demo_hops =
     \<lparr> issued = 2, log = [Attempt 0 ''http://a/'' 1, Attempt 1 ''http://b/'' 1] \<rparr>"
  by (simp add: demo_hops_def hop_world_def world0_def)

text \<open>The chain from \<open>a\<close> over \<open>b\<close> to \<open>c\<close>: 10 + 20 + 30 milliseconds and two entries.\<close>

theorem checkURL_redirect_chain_witness:
  "chain_from demo_env default_options world0 ''http://a/'' demo_hops \<and> demo_hops \<noteq> [] \<and>
   1 \<le> maxRedirects default_options \<and>
   fetch demo_env default_options 2 ''http://c/'' =
     Some (Response 200 [(''content-type'', ''text/plain'')] ''hello'' 30) \<and>
   \<not> is_redirect_response default_options 200 [(''content-type'', ''text/plain'')] \<and>
   checkURL 3 demo_env default_options ''http://a/'' 1 world0 =
     Some (Resolved
            \<lparr> url = ''http://a/'', status = 200, statusText = ''OK'', responseTime = 60,
              bodySize = 5, resHeaders = [(''content-type'', ''text/plain'')],
              redirects = [\<lparr>r_from = ''http://a/'', r_to = ''http://b/'', r_status = 302\<rparr>,
                           \<lparr>r_from = ''http://b/'', r_to = ''http://c/'', r_status = 302\<rparr>],
              error = None \<rparr>,
           \<lparr> issued = 3,
             log = [Attempt 0 ''http://a/'' 1, Attempt 1 ''http://b/'' 1, Attempt 2 ''http://c/'' 1] \<rparr>)"
proof -
  have ne: "demo_hops \<noteq> []" by (simp add: demo_hops_def)
  have m: "1 \<le> maxRedirects default_options" by (simp add: default_options_def)
  have nr: "\<not> is_redirect_response default_options 200 [(''content-type'', ''text/plain'')]"
    by (simp add: is_redirect_response_def)
  have e: "chain_end ''http://a/'' demo_hops = ''http://c/''" "chain_fuel demo_hops = 2"
    "map hop_entry demo_hops = [\<lparr>r_from = ''http://a/'', r_to = ''http://b/'', r_status = 302\<rparr>,
                           \<lparr>r_from = ''http://b/'', r_to = ''http://c/'', r_status = 302\<rparr>]"
    "sum_list (map h_elapsed demo_hops) = 30"
    by (simp_all add: chain_end_def chain_fuel_def demo_hops_def hop_entry_def)
  have s: "statusTextOf 200 = ''OK''"
    by (simp add: statusTextOf_def STATUS_CODES_def str_or_def)
  from checkURL_redirect_chain [OF demo_chain ne m, THEN conjunct2, rule_format,
      of 200 "[(''content-type'', ''text/plain'')]" "''hello''" 30 0]
  show ?thesis
    using demo_chain ne m nr
    by (simp add: e s demo_chain_world fetch_abc_default)
qed

text \<open>
  Claim C6. If the result of a check has a redirect entry, then redirects are followed by
  configuration and one of the requests sent for the URL during the check was answered with a
  3xx status and a \<^verbatim>\<open>Location\<close> header. If redirects are not followed, a 302 response is the result as it is:
  status 302 and no redirect entry.
\<close>

theorem redirects_empty_unless_followed:
  "(checkURL fuel E opts u a w = Some (Resolved r, w') \<and> redirects r \<noteq> [] \<longrightarrow>
      followRedirects opts \<and>
      (\<exists>k st hdrs b ms. issued w \<le> k \<and> k < issued w' \<and>
          fetch E opts k u = Some (Response st hdrs b ms) \<and>
          300 \<le> st \<and> st < 400 \<and> truthy_str (map_of hdrs ''location''))) \<and>
   (\<not> followRedirects opts \<and> fetch E opts (issued w) u = Some (Response 302 hdrs' b' ms') \<longrightarrow>
      checkURL (Suc fuel) E opts u a w =
        Some (Resolved \<lparr> url = u, status = 302, statusText = ''Found'', responseTime = ms',
                bodySize = int (length b'), resHeaders = hdrs', redirects = [], error = None \<rparr>,
              w\<lparr>issued := issued w + 1, log := log w @ [Attempt (issued w) u a]\<rparr>))"
proof -
  have one: "checkURL fuel E opts u a w = Some (Resolved r, w') \<and> redirects r \<noteq> [] \<longrightarrow>
      followRedirects opts \<and>
      (\<exists>k st hdrs b ms. issued w \<le> k \<and> k < issued w' \<and>
          fetch E opts k u = Some (Response st hdrs b ms) \<and>
          300 \<le> st \<and> st < 400 \<and> truthy_str (map_of hdrs ''location''))"
    using checkURL_redirects_observed [of fuel E opts u a w r w'] by blast
  have two: "checkURL (Suc fuel) E opts u a w =
        Some (Resolved \<lparr> url = u, status = 302, statusText = ''Found'', responseTime = ms',
                bodySize = int (length b'), resHeaders = hdrs', redirects = [], error = None \<rparr>,
              w\<lparr>issued := issued w + 1, log := log w @ [Attempt (issued w) u a]\<rparr>)"
    if a: "\<not> followRedirects opts" and f: "fetch E opts (issued w) u = Some (Response 302 hdrs' b' ms')"
  proof -
    from a have "\<not> (is_redirect_response opts 302 hdrs' \<and> 1 \<le> maxRedirects opts)"
      by (simp add: is_redirect_response_def)
    from checkURL_response_final [OF f this, of fuel a]
    show ?thesis
      by (simp add: response_result_def statusTextOf_def STATUS_CODES_def str_or_def)
  qed
  from one two show ?thesis by blast
qed

lemma demo_run_follow:
  "checkURL 3 demo_env default_options ''http://a/'' 1 world0 =
     Some (Resolved
            \<lparr> url = ''http://a/'', status = 200, statusText = ''OK'', responseTime = 60,
              bodySize = 5, resHeaders = [(''content-type'', ''text/plain'')],
              redirects = [\<lparr>r_from = ''http://a/'', r_to = ''http://b/'', r_status = 302\<rparr>,
                           \<lparr>r_from = ''http://b/'', r_to = ''http://c/'', r_status = 302\<rparr>],
              error = None \<rparr>,
           \<lparr> issued = 3,
             log = [Attempt 0 ''http://a/'' 1, Attempt 1 ''http://b/'' 1, Attempt 2 ''http://c/'' 1] \<rparr>)"
  by code_simp

text \<open>
  With the default options the check of \<open>a\<close> has two redirect entries; with redirects switched
  off it is the 302 response of \<open>a\<close> itself.
\<close>

theorem redirects_empty_unless_followed_witness:
  "checkURL 3 demo_env default_options ''http://a/'' 1 world0 =
     Some (Resolved
            \<lparr> url = ''http://a/'', status = 200, statusText = ''OK'', responseTime = 60,
              bodySize = 5, resHeaders = [(''content-type'', ''text/plain'')],
              redirects = [\<lparr>r_from = ''http://a/'', r_to = ''http://b/'', r_status = 302\<rparr>,
                           \<lparr>r_from = ''http://b/'', r_to = ''http://c/'', r_status = 302\<rparr>],
              error = None \<rparr>,
           \<lparr> issued = 3,
             log = [Attempt 0 ''http://a/'' 1, Attempt 1 ''http://b/'' 1, Attempt 2 ''http://c/'' 1] \<rparr>) \<and>
   followRedirects default_options \<and>
   \<not> followRedirects (default_options\<lparr>followRedirects := False\<rparr>) \<and>
   fetch demo_env (default_options\<lparr>followRedirects := False\<rparr>) (issued world0) ''http://a/'' =
     Some (Response 302 [(''location'', ''http://b/'')] [] 10) \<and>
   checkURL 1 demo_env (default_options\<lparr>followRedirects := False\<rparr>) ''http://a/'' 1 world0 =
     Some (Resolved \<lparr> url = ''http://a/'', status = 302, statusText = ''Found'', responseTime = 10,
             bodySize = 0, resHeaders = [(''location'', ''http://b/'')], redirects = [],
             error = None \<rparr>,
           \<lparr> issued = 1, log = [Attempt 0 ''http://a/'' 1] \<rparr>)"
proof -
  let ?off = "default_options\<lparr>followRedirects := False\<rparr>"
  have f: "followRedirects default_options"
    by (simp add: default_options_def)
  have nf: "\<not> followRedirects ?off"
    by simp
  have fa: "fetch demo_env ?off (issued world0) ''http://a/'' =
      Some (Response 302 [(''location'', ''http://b/'')] [] 10)"
    by (rule fetch_abc(1) [OF default_options_accepted(4-6)])
  from redirects_empty_unless_followed [where fuel = 0 and E = demo_env and opts = ?off
      and u = "''http://a/''" and a = 1 and w = world0 and hdrs' = "[(''location'', ''http://b/'')]"
      and b' = "[]" and ms' = 10, THEN conjunct2, rule_format, OF conjI [OF nf fa]]
  have c: "checkURL 1 demo_env ?off ''http://a/'' 1 world0 =
     Some (Resolved \<lparr> url = ''http://a/'', status = 302, statusText = ''Found'', responseTime = 10,
             bodySize = 0, resHeaders = [(''location'', ''http://b/'')], redirects = [],
             error = None \<rparr>,
           \<lparr> issued = 1, log = [Attempt 0 ''http://a/'' 1] \<rparr>)"
    by (simp add: world0_def)
  show ?thesis
    using f nf fa c demo_run_follow by simp
qed
end
